theory Spec2Isabelle
  imports Main "HOL-Library.Multiset" "HOL-Library.Sublist"
begin

section \<open>Values loaded from the scan files\<close>

text \<open>
  The scanner GUI reads its inventory with \<^verbatim>\<open>json.load\<close>, so every entry is a Python
  value built from \<^verbatim>\<open>None\<close>, booleans, numbers, strings, lists and dicts. A dict keeps
  its insertion order, which the export loops rely on, so it is an association list
  (keys distinct, as \<^verbatim>\<open>json.load\<close> produces them). JSON numbers are the integers.
\<close>

datatype json =
    JNull
  | JBool bool
  | JInt int
  | JStr string
  | JList "json list"
  | JObj "(string \<times> json) list"

type_synonym pydict = "(string \<times> json) list"

text \<open>Python's truth value of a loaded value, as \<^verbatim>\<open>if s.get('WingetId')\<close> tests it.\<close>

fun truthy :: "json \<Rightarrow> bool" where
  "truthy JNull = False"
| "truthy (JBool b) = b"
| "truthy (JInt n) = (n \<noteq> 0)"
| "truthy (JStr s) = (s \<noteq> [])"
| "truthy (JList xs) = (xs \<noteq> [])"
| "truthy (JObj kvs) = (kvs \<noteq> [])"

text \<open>\<^verbatim>\<open>d.get(k)\<close> is \<^verbatim>\<open>None\<close> on a missing key, and \<^verbatim>\<open>None\<close> is false.\<close>

definition get_truthy :: "pydict \<Rightarrow> string \<Rightarrow> bool" where
  "get_truthy d k = (case map_of d k of None \<Rightarrow> False | Some v \<Rightarrow> truthy v)"

text \<open>
  An f-string field \<^verbatim>\<open>{pkg}\<close> inserts a string as it is; for any other value it inserts
  Python's \<^verbatim>\<open>str()\<close> of it, which is the parameter \<open>fmt\<close> of the functions below.
\<close>

definition py_format :: "(json \<Rightarrow> string) \<Rightarrow> json \<Rightarrow> string" where
  "py_format fmt v = (case v of JStr s \<Rightarrow> s | _ \<Rightarrow> fmt v)"

definition nl :: char where
  "nl = CHR 0x0A"

definition unlines :: "string list \<Rightarrow> string" where
  "unlines ls = concat (map (\<lambda>l. l @ [nl]) ls)"

text \<open>\<^verbatim>\<open>s.rstrip(chars)\<close>: drop every trailing character that is one of \<open>chars\<close>.\<close>

definition rstrip :: "string \<Rightarrow> string \<Rightarrow> string" where
  "rstrip chars s = rev (dropWhile (\<lambda>c. c \<in> set chars) (rev s))"

section \<open>The migration package\<close>

text \<open>The dict that \<^verbatim>\<open>_export_selection\<close> builds, key by key in the order it is written.\<close>

record package =
  export_date :: string
  drives :: "(string \<times> string) list"
  software :: "pydict list"
  store_apps :: "pydict list"
  configs :: "(string \<times> bool) list"
  licenses :: pydict

section \<open>Install script generation\<close>

text \<open>
  \<^verbatim>\<open>winget_pkgs = [s['WingetId'] for s in package['software'] if s.get('WingetId')]\<close>
\<close>

definition winget_id :: "pydict \<Rightarrow> json option" where
  "winget_id s = (if get_truthy s ''WingetId'' then map_of s ''WingetId'' else None)"

definition winget_pkgs :: "pydict list \<Rightarrow> json list" where
  "winget_pkgs sw = List.map_filter winget_id sw"

text \<open>
  \<^verbatim>\<open>choco_pkgs = [s['ChocolateyId'] for s in package['software']
                if s.get('ChocolateyId') and not s.get('WingetId')]\<close>
\<close>

definition choco_id :: "pydict \<Rightarrow> json option" where
  "choco_id s =
     (if get_truthy s ''ChocolateyId'' \<and> \<not> get_truthy s ''WingetId''
      then map_of s ''ChocolateyId'' else None)"

definition choco_pkgs :: "pydict list \<Rightarrow> json list" where
  "choco_pkgs sw = List.map_filter choco_id sw"

definition winget_header :: string where
  \<open>winget_header = unlines
     [''# ReWin - Winget Installation Script'',
      ''# Run this after Windows installation'',
      '''',
      ''Write-Host "Installing software via Winget..." -ForegroundColor Cyan'',
      '''',
      ''$packages = @('']\<close>

definition winget_footer :: string where
  \<open>winget_footer = unlines
     ['')'',
      '''',
      ''foreach ($pkg in $packages) {'',
      ''    Write-Host "Installing $pkg..." -ForegroundColor Yellow'',
      ''    winget install --id $pkg --accept-source-agreements --accept-package-agreements -h'',
      ''}'',
      '''',
      ''Write-Host "Installation complete!" -ForegroundColor Green'']\<close>

definition choco_header :: string where
  \<open>choco_header = unlines
     [''# ReWin - Chocolatey Installation Script'',
      ''# Run this after Windows installation'',
      '''',
      ''# Install Chocolatey if not present'',
      ''if (!(Get-Command choco -ErrorAction SilentlyContinue)) {'',
      ''    Write-Host "Installing Chocolatey..." -ForegroundColor Yellow'',
      ''    Set-ExecutionPolicy Bypass -Scope Process -Force'',
      ''    [System.Net.ServicePointManager]::SecurityProtocol = [System.Net.ServicePointManager]::SecurityProtocol -bor 3072'',
      ''    iex ((New-Object System.Net.WebClient).DownloadString('https://community.chocolatey.org/install.ps1'))'',
      ''}'',
      '''',
      ''Write-Host "Installing software via Chocolatey..." -ForegroundColor Cyan'',
      '''',
      ''$packages = @('']\<close>

definition choco_footer :: string where
  \<open>choco_footer = unlines
     ['')'',
      '''',
      ''foreach ($pkg in $packages) {'',
      ''    Write-Host "Installing $pkg..." -ForegroundColor Yellow'',
      ''    choco install $pkg -y'',
      ''}'',
      '''',
      ''Write-Host "Installation complete!" -ForegroundColor Green'']\<close>

text \<open>\<^verbatim>\<open>script += f'    "{pkg}",\n'\<close>, once for each identifier.\<close>

definition pkg_line :: "(json \<Rightarrow> string) \<Rightarrow> json \<Rightarrow> string" where
  \<open>pkg_line fmt pkg = ''    "'' @ py_format fmt pkg @ ''",'' @ [nl]\<close>

text \<open>
  The body common to both scripts: the header, one line for each identifier, the
  trailing comma and newline stripped, a newline, the footer.
\<close>

definition render_script :: "(json \<Rightarrow> string) \<Rightarrow> string \<Rightarrow> string \<Rightarrow> json list \<Rightarrow> string" where
  "render_script fmt header footer pkgs =
     rstrip ('','' @ [nl]) (foldl (\<lambda>script pkg. script @ pkg_line fmt pkg) header pkgs)
       @ [nl] @ footer"

text \<open>An identifier as it stands in a script: indented, between double quotes.\<close>

definition quoted :: "(json \<Rightarrow> string) \<Rightarrow> json \<Rightarrow> string" where
  \<open>quoted fmt pkg = ''    "'' @ py_format fmt pkg @ ''"''\<close>

text \<open>
  \<^verbatim>\<open>_generate_install_scripts\<close>: the files it writes into the output directory, in the
  order it writes them, each as its name and its text. A script is written only under
  \<^verbatim>\<open>if winget_pkgs:\<close> and \<^verbatim>\<open>if choco_pkgs:\<close>.
\<close>

definition generate_install_scripts :: "(json \<Rightarrow> string) \<Rightarrow> package \<Rightarrow> (string \<times> string) list" where
  "generate_install_scripts fmt pkg =
     (let wp = winget_pkgs (software pkg);
          cp = choco_pkgs (software pkg)
      in (if wp \<noteq> [] then [(''install_winget.ps1'', render_script fmt winget_header winget_footer wp)] else [])
       @ (if cp \<noteq> [] then [(''install_chocolatey.ps1'', render_script fmt choco_header choco_footer cp)] else []))"


section \<open>Python strings, integers and dicts\<close>

text \<open>
  A Python string is a list of characters; the model has the code points below 256.
  \<^verbatim>\<open>str.isspace\<close>, which \<^verbatim>\<open>str.strip()\<close>, \<^verbatim>\<open>int()\<close> and the regular expression class
  \<^verbatim>\<open>\s\<close> share, holds there of the code points 9 to 13, 28 to 32, 133 and 160.
\<close>

definition is_space :: "char \<Rightarrow> bool" where
  "is_space c =
     (let n = (of_char c :: nat)
      in (9 \<le> n \<and> n \<le> 13) \<or> (28 \<le> n \<and> n \<le> 32) \<or> n = 133 \<or> n = 160)"

definition py_strip :: "string \<Rightarrow> string" where
  "py_strip s = rev (dropWhile is_space (rev (dropWhile is_space s)))"

text \<open>
  \<^verbatim>\<open>str.lower()\<close>: the letters A to Z, and the capital letters of Latin-1 (192 to 222 but
  the multiplication sign 215), move 32 code points up.
\<close>

definition lower_char :: "char \<Rightarrow> char" where
  "lower_char c =
     (let n = (of_char c :: nat)
      in if (65 \<le> n \<and> n \<le> 90) \<or> (192 \<le> n \<and> n \<le> 222 \<and> n \<noteq> 215)
         then char_of (n + 32) else c)"

definition py_lower :: "string \<Rightarrow> string" where
  "py_lower s = map lower_char s"

text \<open>\<^verbatim>\<open>sub in s\<close> on strings: \<open>sub\<close> stands somewhere in \<open>s\<close>.\<close>

fun py_in :: "string \<Rightarrow> string \<Rightarrow> bool" where
  "py_in sub [] = (sub = [])"
| "py_in sub (c # cs) = (prefix sub (c # cs) \<or> py_in sub cs)"

text \<open>\<^verbatim>\<open>s.split(sep)\<close> for a separator of one character.\<close>

fun split_on :: "char \<Rightarrow> string \<Rightarrow> string list" where
  "split_on sep [] = [[]]"
| "split_on sep (c # cs) =
     (if c = sep then [] # split_on sep cs
      else (case split_on sep cs of [] \<Rightarrow> [[c]] | p # ps \<Rightarrow> (c # p) # ps))"

text \<open>\<^verbatim>\<open>str(i)\<close> of a natural number, as \<^verbatim>\<open>f'sw_{i}'\<close> formats the loop index.\<close>

definition digit_char :: "nat \<Rightarrow> char" where
  "digit_char d = char_of (48 + d)"

fun str_nat :: "nat \<Rightarrow> string" where
  "str_nat n = (if n < 10 then [digit_char n] else str_nat (n div 10) @ [digit_char (n mod 10)])"

declare str_nat.simps [simp del]

definition is_digit :: "char \<Rightarrow> bool" where
  "is_digit c = (let n = (of_char c :: nat) in 48 \<le> n \<and> n \<le> 57)"

definition digit_val :: "char \<Rightarrow> nat" where
  "digit_val c = of_char c - 48"

definition digits_value :: "string \<Rightarrow> nat" where
  "digits_value ds = foldl (\<lambda>a c. 10 * a + digit_val c) 0 ds"

definition parse_digits :: "string \<Rightarrow> nat option" where
  "parse_digits ds = (if ds \<noteq> [] \<and> list_all is_digit ds then Some (digits_value ds) else None)"

text \<open>
  \<^verbatim>\<open>int(s)\<close> on a part that \<^verbatim>\<open>split('_')\<close> returned, so with no underscore in it:
  surrounding white space is dropped, one sign is allowed, the rest is decimal digits.
  \<^verbatim>\<open>None\<close> stands for the ValueError.
\<close>

definition py_int :: "string \<Rightarrow> int option" where
  "py_int s =
     (case py_strip s of
        [] \<Rightarrow> None
      | c # ds \<Rightarrow>
          if c = CHR ''-'' then map_option (\<lambda>n. - int n) (parse_digits ds)
          else if c = CHR ''+'' then map_option int (parse_digits ds)
          else map_option int (parse_digits (c # ds)))"

datatype error = IndexError | ValueError | TypeError | AttributeError | TclError | OSError

text \<open>\<^verbatim>\<open>xs[i]\<close>: a negative index counts from the end, an index out of range raises.\<close>

definition py_index :: "'a list \<Rightarrow> int \<Rightarrow> error + 'a" where
  "py_index xs i =
     (let n = int (length xs)
      in if 0 \<le> i \<and> i < n then Inr (xs ! nat i)
         else if i < 0 \<and> - n \<le> i then Inr (xs ! nat (n + i))
         else Inl IndexError)"

text \<open>\<^verbatim>\<open>int(item.split('_')[1])\<close>, the index an item identifier carries.\<close>

definition item_index :: "string \<Rightarrow> error + int" where
  "item_index item =
     (case split_on (CHR ''_'') item of
        p # part # ps \<Rightarrow> (case py_int part of None \<Rightarrow> Inl ValueError | Some i \<Rightarrow> Inr i)
      | _ \<Rightarrow> Inl IndexError)"

text \<open>\<^verbatim>\<open>d.get(k)\<close> and \<^verbatim>\<open>d.get(k, default)\<close> on a loaded dict.\<close>

definition py_get :: "pydict \<Rightarrow> string \<Rightarrow> json" where
  "py_get d k = (case map_of d k of None \<Rightarrow> JNull | Some v \<Rightarrow> v)"

definition get_default :: "pydict \<Rightarrow> string \<Rightarrow> json \<Rightarrow> json" where
  "get_default d k dflt = (case map_of d k of None \<Rightarrow> dflt | Some v \<Rightarrow> v)"

text \<open>\<^verbatim>\<open>a or b\<close> on values.\<close>

definition py_or :: "json \<Rightarrow> json \<Rightarrow> json" where
  "py_or a b = (if truthy a then a else b)"

text \<open>
  \<^verbatim>\<open>d[k] = v\<close> on a dict in insertion order: an existing key keeps its place, a new key
  goes last.
\<close>

fun dict_set :: "('k \<times> 'v) list \<Rightarrow> 'k \<Rightarrow> 'v \<Rightarrow> ('k \<times> 'v) list" where
  "dict_set [] k v = [(k, v)]"
| "dict_set ((k', v') # kvs) k v =
     (if k' = k then (k, v) # kvs else (k', v') # dict_set kvs k v)"



section \<open>The scanner GUI\<close>

subsection \<open>Scan results\<close>

text \<open>
  \<^verbatim>\<open>self.scan_data\<close> is a dict with a key for each scan file that was found:
  \<^verbatim>\<open>'software'\<close> (a dict with the lists \<^verbatim>\<open>InstalledSoftware\<close> and \<^verbatim>\<open>StoreApps\<close> of
  dicts), \<^verbatim>\<open>'mappings'\<close> (a list of dicts), \<^verbatim>\<open>'licenses'\<close> (a dict) and \<^verbatim>\<open>'config'\<close>.
  A key that is absent is \<open>None\<close> here.
\<close>

record software_inventory =
  InstalledSoftware :: "pydict list option"
  StoreApps :: "pydict list option"

record scan_results =
  sd_software :: "software_inventory option"
  sd_mappings :: "pydict list option"
  sd_licenses :: "pydict option"
  sd_config :: "json option"

text \<open>\<^verbatim>\<open>not self.scan_data\<close> holds of \<^verbatim>\<open>None\<close> and of the dict with no key.\<close>

definition scan_empty :: "scan_results \<Rightarrow> bool" where
  "scan_empty sd =
     (sd_software sd = None \<and> sd_mappings sd = None \<and> sd_licenses sd = None \<and> sd_config sd = None)"

subsection \<open>Tree views\<close>

text \<open>
  A \<^verbatim>\<open>ttk.Treeview\<close> with a flat list of items. \<open>rows\<close> holds every item of the
  tree, detached ones too, with its check mark (the text of column \<^verbatim>\<open>#0\<close>, the ballot
  box with or without a check) and its values; \<open>children\<close> is what
  \<^verbatim>\<open>get_children()\<close> returns: the attached items in display order.
\<close>

record tree =
  rows :: "(string \<times> bool \<times> string list) list"
  children :: "string list"

definition empty_tree :: tree where
  "empty_tree = \<lparr>rows = [], children = []\<rparr>"

text \<open>\<^verbatim>\<open>for item in tree.get_children(): tree.delete(item)\<close>: detached items stay.\<close>

definition delete_children :: "tree \<Rightarrow> tree" where
  "delete_children t =
     t\<lparr>rows := filter (\<lambda>r. fst r \<notin> set (children t)) (rows t), children := []\<rparr>"

text \<open>\<^verbatim>\<open>tree.insert('', 'end', iid=iid, ...)\<close> raises when the tree has the item already.\<close>

definition tree_insert :: "tree \<Rightarrow> string \<Rightarrow> bool \<Rightarrow> string list \<Rightarrow> error + tree" where
  "tree_insert t iid checked vals =
     (if map_of (rows t) iid \<noteq> None then Inl TclError
      else Inr (t\<lparr>rows := rows t @ [(iid, checked, vals)], children := children t @ [iid]\<rparr>))"

text \<open>\<^verbatim>\<open>tree.item(item, text=...)\<close> on an item of the tree.\<close>

definition tree_set_text :: "tree \<Rightarrow> string \<Rightarrow> bool \<Rightarrow> tree" where
  "tree_set_text t item checked =
     t\<lparr>rows := map (\<lambda>(i, c, vs). if i = item then (i, checked, vs) else (i, c, vs)) (rows t)\<rparr>"

text \<open>\<^verbatim>\<open>tree.item(item, 'values')\<close> raises on an item the tree does not have.\<close>

definition tree_values :: "tree \<Rightarrow> string \<Rightarrow> error + string list" where
  "tree_values t item = (case map_of (rows t) item of None \<Rightarrow> Inl TclError | Some (c, vs) \<Rightarrow> Inr vs)"

definition tree_detach :: "tree \<Rightarrow> string \<Rightarrow> tree" where
  "tree_detach t item = t\<lparr>children := filter (\<lambda>i. i \<noteq> item) (children t)\<rparr>"

text \<open>\<^verbatim>\<open>tree.reattach(item, '', 'end')\<close> puts the item last.\<close>

definition tree_reattach :: "tree \<Rightarrow> string \<Rightarrow> tree" where
  "tree_reattach t item = t\<lparr>children := filter (\<lambda>i. i \<noteq> item) (children t) @ [item]\<rparr>"

text \<open>
  \<^verbatim>\<open>tree.identify_row(event.y)\<close>: the item displayed at the row of the click, the empty
  string where no item is displayed. The click is given by its row.
\<close>

definition identify_row :: "tree \<Rightarrow> nat \<Rightarrow> string" where
  "identify_row t y = (if y < length (children t) then children t ! y else [])"

subsection \<open>The state of the GUI\<close>

datatype category = CatSoftware | CatStoreApps | CatConfigs | CatLicenses | CatStartup

record scanner_gui =
  scan_data :: "scan_results option"
  current_scan_path :: "string option"
  all_sw_iids :: "string list"
  all_store_iids :: "string list"
  selections :: "category \<Rightarrow> (string \<times> bool) list"
  software_tree :: tree
  store_apps_tree :: tree
  software_search :: string
  store_apps_search :: string
  config_options :: "(string \<times> bool) list"
  include_windows_key :: bool
  include_office_keys :: bool
  include_wifi :: bool
  status_var :: string

text \<open>The state that \<^verbatim>\<open>__init__\<close> and \<^verbatim>\<open>_create_ui\<close> leave.\<close>

definition init_gui :: scanner_gui where
  "init_gui =
     \<lparr>scan_data = None, current_scan_path = None, all_sw_iids = [], all_store_iids = [],
      selections = (\<lambda>c. []),
      software_tree = empty_tree, store_apps_tree = empty_tree,
      software_search = [], store_apps_search = [],
      config_options =
        map (\<lambda>k. (k, True))
          [''env_vars'', ''scheduled_tasks'', ''services'', ''file_assoc'', ''network'',
           ''explorer'', ''vscode'', ''git_config'', ''ssh_config'', ''terminal'',
           ''browser_bookmarks'', ''powershell''],
      include_windows_key = True, include_office_keys = True, include_wifi = True,
      status_var = []\<rparr>"

text \<open>
  \<^verbatim>\<open>getattr(self, f'{category}_tree', None)\<close>: only the software and the store-app
  categories have a tree.
\<close>

definition tree_of :: "scanner_gui \<Rightarrow> category \<Rightarrow> tree option" where
  "tree_of g c =
     (case c of CatSoftware \<Rightarrow> Some (software_tree g)
      | CatStoreApps \<Rightarrow> Some (store_apps_tree g)
      | _ \<Rightarrow> None)"

definition set_tree :: "scanner_gui \<Rightarrow> category \<Rightarrow> tree \<Rightarrow> scanner_gui" where
  "set_tree g c t =
     (case c of CatSoftware \<Rightarrow> g\<lparr>software_tree := t\<rparr>
      | CatStoreApps \<Rightarrow> g\<lparr>store_apps_tree := t\<rparr>
      | _ \<Rightarrow> g)"

definition set_selection :: "scanner_gui \<Rightarrow> category \<Rightarrow> string \<Rightarrow> bool \<Rightarrow> scanner_gui" where
  "set_selection g c item v = g\<lparr>selections := (selections g)(c := dict_set (selections g c) item v)\<rparr>"

subsection \<open>Loading scan results\<close>

text \<open>
  The three loops of \<^verbatim>\<open>_populate_ui\<close> over \<^verbatim>\<open>enumerate(...)\<close>. Each returns the state it
  reached and the exception that stopped it, if one did: \<^verbatim>\<open>_load_scan_from_path\<close> catches
  it, and what the loop had done remains.
\<close>

fun populate_mappings ::
  "(json \<Rightarrow> string) \<Rightarrow> (nat \<times> pydict) list \<Rightarrow> scanner_gui \<Rightarrow> scanner_gui \<times> error option" where
  "populate_mappings fmt [] g = (g, None)"
| "populate_mappings fmt ((i, item) # rest) g =
     (let name = get_default item ''SoftwareName'' (JStr []);
          version = get_default item ''Version'' (JStr []);
          publisher = get_default item ''Publisher'' (JStr []);
          method = get_default item ''InstallMethod'' (JStr ''Manual'');
          pkg_id = py_or (py_get item ''WingetId'') (py_or (py_get item ''ChocolateyId'') (JStr []));
          iid = ''sw_'' @ str_nat i
      in case tree_insert (software_tree g) iid True
                (map (py_format fmt) [name, version, publisher, method, pkg_id]) of
           Inl e \<Rightarrow> (g, Some e)
         | Inr t \<Rightarrow>
             populate_mappings fmt rest
               ((set_selection (g\<lparr>software_tree := t\<rparr>) CatSoftware iid True)
                  \<lparr>all_sw_iids := all_sw_iids g @ [iid]\<rparr>))"

fun populate_installed ::
  "(json \<Rightarrow> string) \<Rightarrow> (nat \<times> pydict) list \<Rightarrow> scanner_gui \<Rightarrow> scanner_gui \<times> error option" where
  "populate_installed fmt [] g = (g, None)"
| "populate_installed fmt ((i, item) # rest) g =
     (let name = get_default item ''Name'' (JStr []);
          version = get_default item ''Version'' (JStr []);
          publisher = get_default item ''Publisher'' (JStr []);
          iid = ''sw_'' @ str_nat i
      in case tree_insert (software_tree g) iid True
                (map (py_format fmt) [name, version, publisher, JStr ''Unknown'', JStr []]) of
           Inl e \<Rightarrow> (g, Some e)
         | Inr t \<Rightarrow>
             populate_installed fmt rest
               ((set_selection (g\<lparr>software_tree := t\<rparr>) CatSoftware iid True)
                  \<lparr>all_sw_iids := all_sw_iids g @ [iid]\<rparr>))"

fun populate_store ::
  "(json \<Rightarrow> string) \<Rightarrow> (nat \<times> pydict) list \<Rightarrow> scanner_gui \<Rightarrow> scanner_gui \<times> error option" where
  "populate_store fmt [] g = (g, None)"
| "populate_store fmt ((i, item) # rest) g =
     (let name = get_default item ''Name'' (JStr []);
          version = get_default item ''Version'' (JStr []);
          publisher = get_default item ''Publisher'' (JStr []);
          iid = ''store_'' @ str_nat i
      in case tree_insert (store_apps_tree g) iid False
                (map (py_format fmt) [name, version, publisher]) of
           Inl e \<Rightarrow> (g, Some e)
         | Inr t \<Rightarrow>
             populate_store fmt rest
               ((set_selection (g\<lparr>store_apps_tree := t\<rparr>) CatStoreApps iid False)
                  \<lparr>all_store_iids := all_store_iids g @ [iid]\<rparr>))"

text \<open>
  The Office keys of the license file: a key is masked when its product key holds
  \<^verbatim>\<open>PARTIAL\<close> or an asterisk or is shorter than 20 characters, and one masked key switches
  the Office toggle off. A key that is not a dict raises.
\<close>

definition key_masked :: "(json \<Rightarrow> string) \<Rightarrow> pydict \<Rightarrow> bool" where
  "key_masked fmt key =
     (let productkey = py_format fmt (get_default key ''ProductKey'' (JStr ''N/A''))
      in py_in ''PARTIAL'' productkey \<or> py_in ''*'' productkey \<or> length productkey < 20)"

fun has_masked_keys :: "(json \<Rightarrow> string) \<Rightarrow> json list \<Rightarrow> bool \<Rightarrow> error + bool" where
  "has_masked_keys fmt [] acc = Inr acc"
| "has_masked_keys fmt (JObj key # keys) acc = has_masked_keys fmt keys (acc \<or> key_masked fmt key)"
| "has_masked_keys fmt (k # keys) acc = Inl AttributeError"

definition populate_licenses :: "(json \<Rightarrow> string) \<Rightarrow> scanner_gui \<Rightarrow> scanner_gui \<times> error option" where
  "populate_licenses fmt g =
     (case scan_data g of
        None \<Rightarrow> (g, None)
      | Some sd \<Rightarrow>
         (case sd_licenses sd of
            None \<Rightarrow> (g, None)
          | Some lic \<Rightarrow>
             (let office_keys = get_default lic ''Office'' (JList [])
              in if \<not> truthy office_keys then (g, None)
                 else (case office_keys of
                         JList keys \<Rightarrow>
                           (case has_masked_keys fmt keys False of
                              Inl e \<Rightarrow> (g, Some e)
                            | Inr masked \<Rightarrow>
                                (if masked then g\<lparr>include_office_keys := False\<rparr> else g, None))
                       | JObj d \<Rightarrow> (g, Some AttributeError)
                       | JStr s \<Rightarrow> (g, Some AttributeError)
                       | _ \<Rightarrow> (g, Some TypeError)))))"

definition list_or_empty :: "'a list option \<Rightarrow> 'a list" where
  "list_or_empty xs = (case xs of None \<Rightarrow> [] | Some l \<Rightarrow> l)"

text \<open>
  \<^verbatim>\<open>_populate_ui\<close>. The Windows key, the Office text and the WiFi tree are display only
  and are left out; the selection dicts are not cleared, as in the source.
\<close>

definition populate_ui :: "(json \<Rightarrow> string) \<Rightarrow> scanner_gui \<Rightarrow> scanner_gui \<times> error option" where
  "populate_ui fmt g =
     (case scan_data g of
        None \<Rightarrow> (g, None)
      | Some sd \<Rightarrow>
          if scan_empty sd then (g, None)
          else
            (let g1 = g\<lparr>software_tree := delete_children (software_tree g),
                        store_apps_tree := delete_children (store_apps_tree g),
                        all_sw_iids := [], all_store_iids := []\<rparr>;
                 (g2, e2) =
                   (case sd_mappings sd of
                      Some ms \<Rightarrow> populate_mappings fmt (enumerate 0 ms) g1
                    | None \<Rightarrow>
                       (case sd_software sd of
                          Some inventory \<Rightarrow>
                            populate_installed fmt
                              (enumerate 0 (list_or_empty (InstalledSoftware inventory))) g1
                        | None \<Rightarrow> (g1, None)))
             in if e2 \<noteq> None then (g2, e2)
                else
                  (let (g3, e3) =
                         (case sd_software sd of
                            Some inventory \<Rightarrow>
                              populate_store fmt (enumerate 0 (list_or_empty (StoreApps inventory))) g2
                          | None \<Rightarrow> (g2, None))
                   in if e3 \<noteq> None then (g3, e3) else populate_licenses fmt g3)))"

text \<open>
  \<^verbatim>\<open>_load_scan_from_path\<close>, given what the scan files of the directory hold.
\<close>

definition load_scan_from_path :: "(json \<Rightarrow> string) \<Rightarrow> string \<Rightarrow> scan_results \<Rightarrow> scanner_gui \<Rightarrow> scanner_gui" where
  "load_scan_from_path fmt path sd g =
     (case populate_ui fmt (g\<lparr>scan_data := Some sd, current_scan_path := Some path\<rparr>) of
        (g', None) \<Rightarrow> g'\<lparr>status_var := ''Loaded scan results from: '' @ path\<rparr>
      | (g', Some e) \<Rightarrow> g'\<lparr>status_var := ''Failed to load scan results''\<rparr>)"

subsection \<open>Selecting\<close>

text \<open>
  \<^verbatim>\<open>_toggle_selection(event, category)\<close>: the item under the click is flipped when the
  selection dict of the category has it.
\<close>

definition toggle_selection :: "scanner_gui \<Rightarrow> nat \<Rightarrow> category \<Rightarrow> scanner_gui" where
  "toggle_selection g y c =
     (case tree_of g c of
        None \<Rightarrow> g
      | Some t \<Rightarrow>
          (let item = identify_row t y
           in if item = [] then g
              else (case map_of (selections g c) item of
                      None \<Rightarrow> g
                    | Some v \<Rightarrow>
                        set_tree (set_selection g c item (\<not> v)) c (tree_set_text t item (\<not> v)))))"

text \<open>
  The loop of \<^verbatim>\<open>_select_all\<close> (\<open>v\<close> true) and \<^verbatim>\<open>_deselect_all\<close> (\<open>v\<close> false) over the
  children of the tree: a missing item is first entered with the other value, then the
  item is set and its check mark drawn.
\<close>

fun mark_all :: "category \<Rightarrow> bool \<Rightarrow> string list \<Rightarrow> scanner_gui \<Rightarrow> scanner_gui" where
  "mark_all c v [] g = g"
| "mark_all c v (item # items) g =
     (let g1 = (if map_of (selections g c) item = None then set_selection g c item (\<not> v) else g);
          g2 = set_selection g1 c item v;
          g3 = (case tree_of g2 c of None \<Rightarrow> g2 | Some t \<Rightarrow> set_tree g2 c (tree_set_text t item v))
      in mark_all c v items g3)"

definition select_all :: "scanner_gui \<Rightarrow> category \<Rightarrow> scanner_gui" where
  "select_all g c =
     (case tree_of g c of
        None \<Rightarrow> g
      | Some t \<Rightarrow> if children t = [] then g else mark_all c True (children t) g)"

definition deselect_all :: "scanner_gui \<Rightarrow> category \<Rightarrow> scanner_gui" where
  "deselect_all g c =
     (case tree_of g c of
        None \<Rightarrow> g
      | Some t \<Rightarrow> if children t = [] then g else mark_all c False (children t) g)"

text \<open>
  \<^verbatim>\<open>_select_winget\<close>: every displayed software item is selected exactly when its install
  method, the fourth value, is \<^verbatim>\<open>Winget\<close>.
\<close>

fun select_winget_loop :: "string list \<Rightarrow> scanner_gui \<Rightarrow> scanner_gui" where
  "select_winget_loop [] g = g"
| "select_winget_loop (item # items) g =
     (case tree_values (software_tree g) item of
        Inl e \<Rightarrow> g
      | Inr vals \<Rightarrow>
          (let method = (if length vals > 3 then vals ! 3 else []);
               selected = (method = ''Winget'')
           in select_winget_loop items
                ((set_selection g CatSoftware item selected)
                   \<lparr>software_tree := tree_set_text (software_tree g) item selected\<rparr>)))"

definition select_winget :: "scanner_gui \<Rightarrow> scanner_gui" where
  "select_winget g = select_winget_loop (children (software_tree g)) g"

subsection \<open>Filtering\<close>

text \<open>
  The loop of \<^verbatim>\<open>_filter_software\<close> and \<^verbatim>\<open>_filter_store_apps\<close> over the identifiers that
  \<^verbatim>\<open>_populate_ui\<close> recorded: an item whose name or publisher holds the search term is
  reattached when it was not displayed, any other item is detached when it was.
  \<open>visible\<close> is the set of children taken before the loop. An identifier that the tree
  does not have stops the loop with the exception.
\<close>

fun filter_loop :: "string \<Rightarrow> string list \<Rightarrow> string list \<Rightarrow> tree \<Rightarrow> tree \<times> error option" where
  "filter_loop needle visible [] t = (t, None)"
| "filter_loop needle visible (item # items) t =
     (case tree_values t item of
        Inl e \<Rightarrow> (t, Some e)
      | Inr vals \<Rightarrow>
          if vals = [] then filter_loop needle visible items t
          else
            (let name = py_lower (vals ! 0);
                 publisher = (if length vals > 2 then py_lower (vals ! 2) else [])
             in if py_in needle name \<or> py_in needle publisher
                then (if item \<notin> set visible
                      then filter_loop needle visible items (tree_reattach t item)
                      else filter_loop needle visible items t)
                else (if item \<in> set visible
                      then filter_loop needle visible items (tree_detach t item)
                      else filter_loop needle visible items t)))"

text \<open>An exception in the callback is reported by Tk and the GUI goes on.\<close>

definition filter_software :: "scanner_gui \<Rightarrow> scanner_gui" where
  "filter_software g =
     g\<lparr>software_tree :=
         fst (filter_loop (py_lower (software_search g)) (children (software_tree g))
                (all_sw_iids g) (software_tree g))\<rparr>"

definition filter_store_apps :: "scanner_gui \<Rightarrow> scanner_gui" where
  "filter_store_apps g =
     g\<lparr>store_apps_tree :=
         fst (filter_loop (py_lower (store_apps_search g)) (children (store_apps_tree g))
                (all_store_iids g) (store_apps_tree g))\<rparr>"

text \<open>
  What the user does on a loaded scan: a click on a row of a tree, the buttons of a
  tab, and typing in a search box, which sets the search variable and runs the filter
  through the variable's trace.
\<close>

datatype gui_op =
    Toggle category nat
  | SelectAll category
  | DeselectAll category
  | SelectWinget
  | SearchSoftware string
  | SearchStoreApps string

fun run_op :: "scanner_gui \<Rightarrow> gui_op \<Rightarrow> scanner_gui" where
  "run_op g (Toggle c y) = toggle_selection g y c"
| "run_op g (SelectAll c) = select_all g c"
| "run_op g (DeselectAll c) = deselect_all g c"
| "run_op g SelectWinget = select_winget g"
| "run_op g (SearchSoftware s) = filter_software (g\<lparr>software_search := s\<rparr>)"
| "run_op g (SearchStoreApps s) = filter_store_apps (g\<lparr>store_apps_search := s\<rparr>)"

definition run_ops :: "scanner_gui \<Rightarrow> gui_op list \<Rightarrow> scanner_gui" where
  "run_ops g ops = foldl run_op g ops"

text \<open>An identifier is hidden when its tree has it and does not display it.\<close>

definition hidden :: "scanner_gui \<Rightarrow> category \<Rightarrow> string \<Rightarrow> bool" where
  "hidden g c item =
     (case tree_of g c of
        None \<Rightarrow> False
      | Some t \<Rightarrow> map_of (rows t) item \<noteq> None \<and> item \<notin> set (children t))"

subsection \<open>Exporting\<close>

text \<open>
  The loops of \<^verbatim>\<open>_export_selection\<close> over \<^verbatim>\<open>self.selections[...].items()\<close>: for a selected
  item, the index is read from the identifier and, when it is below the length of the
  scanned list, the entry at the index is appended, as \<open>f\<close> rewrites it.
\<close>

fun export_loop ::
  "(string \<times> bool) list \<Rightarrow> pydict list \<Rightarrow> (pydict \<Rightarrow> pydict) \<Rightarrow> pydict list \<Rightarrow> error + pydict list" where
  "export_loop [] src f acc = Inr acc"
| "export_loop ((item, selected) # rest) src f acc =
     (if selected then
        (case item_index item of
           Inl e \<Rightarrow> Inl e
         | Inr idx \<Rightarrow>
             if idx < int (length src) then
               (case py_index src idx of
                  Inl e \<Rightarrow> Inl e
                | Inr x \<Rightarrow> export_loop rest src f (acc @ [f x]))
             else export_loop rest src f acc)
      else export_loop rest src f acc)"

definition installed_entry :: "pydict \<Rightarrow> pydict" where
  "installed_entry sw_item =
     [(''SoftwareName'', get_default sw_item ''Name'' (JStr [])),
      (''Version'', get_default sw_item ''Version'' (JStr [])),
      (''Publisher'', get_default sw_item ''Publisher'' (JStr [])),
      (''InstallMethod'', JStr ''Manual'')]"

definition store_entry :: "pydict \<Rightarrow> pydict" where
  "store_entry store_app =
     [(''Name'', get_default store_app ''Name'' (JStr [])),
      (''Version'', get_default store_app ''Version'' (JStr [])),
      (''Publisher'', get_default store_app ''Publisher'' (JStr [])),
      (''PackageFamilyName'', get_default store_app ''PackageFamilyName'' (JStr []))]"

definition export_software :: "scanner_gui \<Rightarrow> scan_results \<Rightarrow> error + pydict list" where
  "export_software g sd =
     (case sd_mappings sd of
        Some ms \<Rightarrow> export_loop (selections g CatSoftware) ms (\<lambda>s. s) []
      | None \<Rightarrow>
         (case sd_software sd of
            None \<Rightarrow> Inr []
          | Some inventory \<Rightarrow>
             (case InstalledSoftware inventory of
                None \<Rightarrow> Inr []
              | Some sw_list \<Rightarrow> export_loop (selections g CatSoftware) sw_list installed_entry [])))"

definition export_store_apps :: "scanner_gui \<Rightarrow> scan_results \<Rightarrow> error + pydict list" where
  "export_store_apps g sd =
     (case sd_software sd of
        None \<Rightarrow> Inr []
      | Some inventory \<Rightarrow>
         (case StoreApps inventory of
            None \<Rightarrow> Inr []
          | Some store_apps_list \<Rightarrow>
              export_loop (selections g CatStoreApps) store_apps_list store_entry []))"

definition export_licenses :: "scanner_gui \<Rightarrow> scan_results \<Rightarrow> pydict" where
  "export_licenses g sd =
     [(''include_windows'', JBool (include_windows_key g)),
      (''include_office'', JBool (include_office_keys g)),
      (''include_wifi'', JBool (include_wifi g))]
     @ (case sd_licenses sd of
          None \<Rightarrow> []
        | Some lic \<Rightarrow>
            (if include_windows_key g then [(''windows_key'', get_default lic ''Windows'' (JObj []))] else [])
          @ (if include_office_keys g then [(''office_keys'', get_default lic ''Office'' (JList []))] else [])
          @ (if include_wifi g then [(''wifi_profiles'', get_default lic ''WiFiProfiles'' (JList []))] else []))"

text \<open>
  The package that \<^verbatim>\<open>_export_selection\<close> builds before it writes anything. With no scan
  loaded, \<^verbatim>\<open>'mappings' in self.scan_data\<close> raises a TypeError.
\<close>

definition build_package :: "scanner_gui \<Rightarrow> error + package" where
  "build_package g =
     (case scan_data g of
        None \<Rightarrow> Inl TypeError
      | Some sd \<Rightarrow>
         (case export_software g sd of
            Inl e \<Rightarrow> Inl e
          | Inr sw \<Rightarrow>
             (case export_store_apps g sd of
                Inl e \<Rightarrow> Inl e
              | Inr apps \<Rightarrow>
                  Inr \<lparr>export_date = [],
                       drives = [(''primary'', ''C:''), (''secondary'', ''D:''), (''data'', ''D:'')],
                       software = sw,
                       store_apps = apps,
                       configs = config_options g,
                       licenses = export_licenses g sd\<rparr>)))"

text \<open>The package as the value that \<^verbatim>\<open>json.dump\<close> receives, keys in insertion order.\<close>

definition package_json :: "package \<Rightarrow> json" where
  "package_json pkg =
     JObj [(''export_date'', JStr (export_date pkg)),
           (''drives'', JObj (map (\<lambda>(k, v). (k, JStr v)) (drives pkg))),
           (''software'', JList (map JObj (software pkg))),
           (''store_apps'', JList (map JObj (store_apps pkg))),
           (''configs'', JObj (map (\<lambda>(k, b). (k, JBool b)) (configs pkg))),
           (''licenses'', JObj (licenses pkg))]"

text \<open>
  \<^verbatim>\<open>_export_selection\<close>. \<open>output_dir\<close> is what the directory dialog returned (empty when
  it was cancelled), \<open>writable\<close> says whether the files can be opened for writing there,
  and \<open>dump\<close> is \<^verbatim>\<open>json.dump(..., indent=2, default=str)\<close>, the text it writes for a
  value. An exception is caught and shown in a message box. The copy of the scan files
  that follows the scripts is left out.
\<close>

datatype export_outcome =
    Cancelled
  | ExportFailed error
  | Exported package "(string \<times> string) list"

definition export_selection ::
  "(json \<Rightarrow> string) \<Rightarrow> (json \<Rightarrow> string) \<Rightarrow> string \<Rightarrow> bool \<Rightarrow> scanner_gui \<Rightarrow> export_outcome \<times> scanner_gui" where
  "export_selection fmt dump output_dir writable g =
     (if output_dir = [] then (Cancelled, g)
      else
        (case build_package g of
           Inl e \<Rightarrow> (ExportFailed e, g)
         | Inr pkg \<Rightarrow>
             if \<not> writable then (ExportFailed OSError, g)
             else (Exported pkg
                     ((''migration_package.json'', dump (package_json pkg))
                        # generate_install_scripts fmt pkg),
                   g\<lparr>status_var := ''Package exported to: '' @ output_dir\<rparr>)))"

text \<open>The text of \<^verbatim>\<open>migration_package.json\<close> that an export wrote, if it wrote one.\<close>

definition package_file :: "export_outcome \<Rightarrow> string option" where
  "package_file out =
     (case out of Exported pkg files \<Rightarrow> map_of files ''migration_package.json'' | _ \<Rightarrow> None)"

text \<open>The software list and the store-app list of the package that an export builds.\<close>

definition exported_software :: "scanner_gui \<Rightarrow> error + pydict list" where
  "exported_software g = map_sum id software (build_package g)"



subsection \<open>What a scan holds\<close>





text \<open>What decides whether an item is displayed: the items of a tree and its children.\<close>

definition tree_items :: "tree \<Rightarrow> string list \<times> string list" where
  "tree_items t = (map fst (rows t), children t)"


text \<open>
  Two states of the GUI with the same inputs of an export: the loaded scan, the software
  and store-app selections, the configuration toggles and the license toggles.
\<close>

definition same_export_inputs :: "scanner_gui \<Rightarrow> scanner_gui \<Rightarrow> bool" where
  "same_export_inputs g1 g2 =
     (scan_data g1 = scan_data g2
      \<and> selections g1 CatSoftware = selections g2 CatSoftware
      \<and> selections g1 CatStoreApps = selections g2 CatStoreApps
      \<and> config_options g1 = config_options g2
      \<and> include_windows_key g1 = include_windows_key g2
      \<and> include_office_keys g1 = include_office_keys g2
      \<and> include_wifi g1 = include_wifi g2)"


text \<open>
  A selection dict as loads leave it: its keys are the identifiers of a load in order,
  \<^verbatim>\<open>sw_0\<close>, \<^verbatim>\<open>sw_1\<close>, ... for the prefix \<^verbatim>\<open>sw_\<close>.
\<close>

definition loaded_keys :: "string \<Rightarrow> (string \<times> bool) list \<Rightarrow> bool" where
  "loaded_keys pre d = (map fst d = map (\<lambda>i. pre @ str_nat i) [0..<length d])"





section \<open>The restore GUI\<close>

subsection \<open>Parsing the resolver report\<close>

text \<open>
  The two regular expressions of \<^verbatim>\<open>_update_installer_results\<close>, each as the match it
  makes at the head of a text. Both start a URL with \<^verbatim>\<open>https?://\<close> or \<^verbatim>\<open>winget://\<close>.
\<close>

definition match_scheme :: "string \<Rightarrow> (string \<times> string) option" where
  "match_scheme s =
     (if prefix ''https://'' s then Some (''https://'', drop 8 s)
      else if prefix ''http://'' s then Some (''http://'', drop 7 s)
      else if prefix ''winget://'' s then Some (''winget://'', drop 9 s)
      else None)"

text \<open>The class \<^verbatim>\<open>[^\s\)]\<close> of the link pattern and the class \<^verbatim>\<open>[^\s\)\],]\<close> of the raw one.\<close>

definition link_char :: "char \<Rightarrow> bool" where
  "link_char c = (\<not> is_space c \<and> c \<noteq> CHR '')'')"

definition raw_char :: "char \<Rightarrow> bool" where
  "raw_char c = (\<not> is_space c \<and> c \<noteq> CHR '')'' \<and> c \<noteq> CHR '']'' \<and> c \<noteq> CHR '','')"

text \<open>
  \<^verbatim>\<open>\]\((https?://[^\s\)]+|winget://[^\s\)]+)\)\<close> at the head of \<open>s\<close>: the captured URL and
  the length of the whole match. The class excludes the closing parenthesis, so the
  greedy run either ends before one or the pattern does not match here.
\<close>

definition match_link :: "string \<Rightarrow> (string \<times> nat) option" where
  "match_link s =
     (if prefix '']('' s then
        (case match_scheme (drop 2 s) of
           None \<Rightarrow> None
         | Some (scheme, rest) \<Rightarrow>
             (let run = takeWhile link_char rest
              in if run \<noteq> [] \<and> prefix '')'' (dropWhile link_char rest)
                 then Some (scheme @ run, 2 + length scheme + length run + 1)
                 else None))
      else None)"

text \<open>\<^verbatim>\<open>(?:https?|winget)://[^\s\)\],]+\<close> at the head of \<open>s\<close>: the match and its length.\<close>

definition match_raw :: "string \<Rightarrow> (string \<times> nat) option" where
  "match_raw s =
     (case match_scheme s of
        None \<Rightarrow> None
      | Some (scheme, rest) \<Rightarrow>
          (let run = takeWhile raw_char rest
           in if run \<noteq> [] then Some (scheme @ run, length scheme + length run) else None))"

text \<open>
  \<^verbatim>\<open>re.findall\<close>: the matches from left to right, none overlapping another. \<open>skip\<close>
  counts the characters still inside the last match.
\<close>

fun findall :: "(string \<Rightarrow> (string \<times> nat) option) \<Rightarrow> nat \<Rightarrow> string \<Rightarrow> string list" where
  "findall m skip [] = []"
| "findall m skip (c # cs) =
     (if skip > 0 then findall m (skip - 1) cs
      else (case m (c # cs) of
              None \<Rightarrow> findall m 0 cs
            | Some (found, n) \<Rightarrow> found # findall m (n - 1) cs))"

definition link_urls :: "string \<Rightarrow> string list" where
  "link_urls content = findall match_link 0 content"

definition raw_urls :: "string \<Rightarrow> string list" where
  "raw_urls content = findall match_raw 0 content"

text \<open>
  \<^verbatim>\<open>list(set(urls + raw_urls))\<close>: the distinct elements in the order in which Python
  iterates the set, which the language leaves open. \<open>order\<close> is that order, a
  rearrangement of its argument.
\<close>

definition list_of_set :: "(string list \<Rightarrow> string list) \<Rightarrow> string list \<Rightarrow> string list" where
  "list_of_set order xs = order (remdups xs)"

definition rearranges :: "(string list \<Rightarrow> string list) \<Rightarrow> bool" where
  "rearranges order = (\<forall>xs. mset (order xs) = mset xs)"

text \<open>The tokens that stand for a Winget result with no installer.\<close>

definition placeholders :: "string list" where
  "placeholders = [''winget://install/'', ''winget://install'']"

definition found_urls :: "(string list \<Rightarrow> string list) \<Rightarrow> string \<Rightarrow> string list" where
  "found_urls order content =
     filter (\<lambda>u. py_strip u \<notin> set placeholders)
       (list_of_set order (link_urls content @ raw_urls content))"

text \<open>
  \<^verbatim>\<open>len(re.findall(r'^### ', content, re.MULTILINE))\<close>: the lines that start with three
  hashes and a space. \<open>at_start\<close> says whether the head of the text starts a line.
\<close>

fun count_sections :: "bool \<Rightarrow> string \<Rightarrow> nat" where
  "count_sections at_start [] = 0"
| "count_sections at_start (c # cs) =
     (if at_start \<and> prefix ''### '' (c # cs) then 1 else 0) + count_sections (c = nl) cs"

text \<open>\<^verbatim>\<open>"google.com/search" not in url.lower()\<close>\<close>

definition is_search_url :: "string \<Rightarrow> bool" where
  "is_search_url url = py_in ''google.com/search'' (py_lower url)"

definition selectable_urls :: "string list \<Rightarrow> string list" where
  "selectable_urls found = filter (\<lambda>url. \<not> is_search_url url) found"

text \<open>
  What \<^verbatim>\<open>_update_installer_results\<close> reads and what it shows. The report file is
  missing, or reading it raises, or it has a text. The messages are the f-strings of the
  source with their numbers; the rows of the download tree are a check mark and a URL.
\<close>

datatype report_file = Missing | Unreadable | Report string

datatype search_info =
    FoundUrlsAcrossItems nat nat
  | ErrorReadingResults
  | ProcessedItems nat

datatype download_info =
    FoundDirectUrls nat
  | OnlySearchFallbacks
  | NoDownloadUrls

record installer_view =
  installer_search_info :: search_info
  download_selection_tree :: "(bool \<times> string) list"
  download_info_label :: download_info

definition update_installer_results ::
  "(string list \<Rightarrow> string list) \<Rightarrow> string list \<Rightarrow> report_file \<Rightarrow> installer_view" where
  "update_installer_results order results manual_downloads =
     (let (found, info) =
            (case manual_downloads of
               Report content \<Rightarrow>
                 (let found = found_urls order content
                  in (found, FoundUrlsAcrossItems (length found) (count_sections True content)))
             | Unreadable \<Rightarrow> ([], ErrorReadingResults)
             | Missing \<Rightarrow> ([], ProcessedItems (length results)));
          selectable = selectable_urls found
      in \<lparr>installer_search_info = info,
          download_selection_tree = map (\<lambda>url. (False, url)) selectable,
          download_info_label =
            (if found \<noteq> [] then
               (if selectable \<noteq> [] then FoundDirectUrls (length selectable) else OnlySearchFallbacks)
             else NoDownloadUrls)\<rparr>)"

text \<open>
  The download tree afterwards: a click flips the row's check mark, the two buttons
  set every mark, and \<^verbatim>\<open>_download_selected_urls\<close> takes the URLs of the checked rows.
\<close>

definition toggle_download_selection :: "(bool \<times> string) list \<Rightarrow> nat \<Rightarrow> (bool \<times> string) list" where
  "toggle_download_selection tree_rows y =
     (if y < length tree_rows
      then tree_rows[y := (\<not> fst (tree_rows ! y), snd (tree_rows ! y))]
      else tree_rows)"

definition select_all_downloads :: "(bool \<times> string) list \<Rightarrow> (bool \<times> string) list" where
  "select_all_downloads tree_rows = map (\<lambda>(c, url). (True, url)) tree_rows"

definition deselect_all_downloads :: "(bool \<times> string) list \<Rightarrow> (bool \<times> string) list" where
  "deselect_all_downloads tree_rows = map (\<lambda>(c, url). (False, url)) tree_rows"

definition selected_urls :: "(bool \<times> string) list \<Rightarrow> string list" where
  "selected_urls tree_rows = map snd (filter fst tree_rows)"

subsection \<open>The full restore\<close>

text \<open>
  The restore GUI as far as a restore run changes it: the log widget, the lines handed
  to the debug file of the package directory (each with its file name; the time stamp
  that \<^verbatim>\<open>_write_debug\<close> puts before a line is left out), the progress label, and the
  scripts that were started with \<^verbatim>\<open>subprocess.Popen\<close>, in order. A log line is recorded
  where the worker thread asks for it, whether it calls \<^verbatim>\<open>_log\<close> itself or hands the call
  to the main loop with \<^verbatim>\<open>root.after\<close>.
\<close>

record restore_gui =
  package_path :: "string option"
  restore_options :: "(string \<times> bool) list"
  log_text :: "string list"
  debug_files :: "(string \<times> string) list"
  progress_label :: string
  started :: "string list"

text \<open>
  What starting a script does: \<^verbatim>\<open>Popen\<close> raises with a message, or the process runs,
  prints its lines and exits with a code.
\<close>

datatype process = SpawnFails string | Exits "string list" int

text \<open>
  The world of one run: the answer to the confirmation box, for each install script
  what starting it does (\<open>None\<close> when the file does not exist), whether the temporary
  restore script can be written (else the message of the exception), and what the
  configuration restore does.
\<close>

record restore_env =
  confirmed :: bool
  winget_script :: "process option"
  chocolatey_script :: "process option"
  temp_script_error :: "string option"
  config_restore :: process

definition log :: "restore_gui \<Rightarrow> string \<Rightarrow> string \<Rightarrow> restore_gui" where
  "log g message debug_file =
     g\<lparr>log_text := log_text g @ [message],
       debug_files := debug_files g
          @ (if package_path g = None then [] else [(debug_file, message)])\<rparr>"

text \<open>\<^verbatim>\<open>for line in process.stdout: ... self._log(l.strip(), "restore_debug.txt")\<close>\<close>

definition log_output :: "restore_gui \<Rightarrow> string list \<Rightarrow> restore_gui" where
  "log_output g lines = foldl (\<lambda>g l. log g (py_strip l) ''restore_debug.txt'') g lines"

definition rule50 :: string where
  "rule50 = replicate 50 (CHR ''='')"

text \<open>
  \<^verbatim>\<open>_restore_configs\<close>, with the body of its thread: the exit code of the process is
  not read, and an exception is logged.
\<close>

definition restore_configs :: "restore_env \<Rightarrow> restore_gui \<Rightarrow> restore_gui" where
  "restore_configs env g =
     (if package_path g = None then g
      else
        (let g1 = (log g ''Starting configuration restore...'' ''restore_debug.txt'')
                    \<lparr>progress_label := ''Restoring configurations...''\<rparr>
         in case temp_script_error env of
              Some msg \<Rightarrow> log g1 (''Error: '' @ msg) ''restore_debug.txt''
            | None \<Rightarrow>
               (case config_restore env of
                  SpawnFails msg \<Rightarrow> log g1 (''Error: '' @ msg) ''restore_debug.txt''
                | Exits lines code \<Rightarrow>
                    (log (log_output (g1\<lparr>started := started g1 @ [''temp_restore.ps1'']\<rparr>) lines)
                       ''Configuration restore complete!'' ''restore_debug.txt'')
                      \<lparr>progress_label := ''Configuration restore complete''\<rparr>)))"

text \<open>
  One backend phase of \<^verbatim>\<open>_full_restore\<close>: nothing when the script file does not exist;
  else the phase is announced, the script started and its output logged. The result
  is \<open>None\<close> when \<^verbatim>\<open>Popen\<close> raised: nothing catches the exception and the thread ends.
\<close>

definition backend_phase ::
  "string \<Rightarrow> string \<Rightarrow> process option \<Rightarrow> restore_gui \<Rightarrow> restore_gui \<times> bool" where
  "backend_phase announce script run g =
     (case run of
        None \<Rightarrow> (g, True)
      | Some p \<Rightarrow>
          (let g1 = log g announce ''restore_debug.txt''
           in case p of
                SpawnFails msg \<Rightarrow> (g1, False)
              | Exits lines code \<Rightarrow> (log_output (g1\<lparr>started := started g1 @ [script]\<rparr>) lines, True)))"

definition full_restore :: "restore_env \<Rightarrow> restore_gui \<Rightarrow> restore_gui" where
  "full_restore env g =
     (if package_path g = None then g
      else if \<not> confirmed env then g
      else
        (let g1 = log g rule50 ''restore_debug.txt'';
             g2 = log g1 ''PHASE 1: Installing Software'' ''restore_debug.txt'';
             g3 = log g2 rule50 ''restore_debug.txt'';
             (g4, alive4) = backend_phase ([nl] @ ''Installing via Winget...'') ''install_winget.ps1''
                              (winget_script env) g3
         in if \<not> alive4 then g4
            else
              (let (g5, alive5) = backend_phase ([nl] @ ''Installing via Chocolatey...'')
                                    ''install_chocolatey.ps1'' (chocolatey_script env) g4
               in if \<not> alive5 then g5
                  else
                    (let g6 = log g5 ([nl] @ rule50) ''restore_debug.txt'';
                         g7 = log g6 ''PHASE 2: Restoring Configuration'' ''restore_debug.txt'';
                         g8 = log g7 (rule50 @ [nl]) ''restore_debug.txt''
                     in restore_configs env g8))))"

text \<open>The exit code set to zero, everything else as it is.\<close>

definition exit_zero :: "process option \<Rightarrow> process option" where
  "exit_zero run =
     (case run of Some (Exits lines code) \<Rightarrow> Some (Exits lines 0) | r \<Rightarrow> r)"

text \<open>Starting the script does not raise: the file is missing, or the process runs.\<close>

definition starts :: "process option \<Rightarrow> bool" where
  "starts run = (case run of Some (SpawnFails msg) \<Rightarrow> False | _ \<Rightarrow> True)"

text \<open>The script that a phase starts, if it starts one.\<close>

definition started_by :: "string \<Rightarrow> process option \<Rightarrow> string list" where
  "started_by script run = (case run of Some (Exits lines code) \<Rightarrow> [script] | _ \<Rightarrow> [])"


section \<open>Example data\<close>

text \<open>Entries as the scanner's mapping file holds them, used to run the model.\<close>

definition example_git :: pydict where
  "example_git =
     [(''SoftwareName'', JStr ''Git''), (''Version'', JStr ''2.43.0''),
      (''Publisher'', JStr ''The Git Development Community''),
      (''InstallMethod'', JStr ''Winget''),
      (''WingetId'', JStr ''Git.Git''), (''ChocolateyId'', JStr ''git'')]"

definition example_vlc :: pydict where
  "example_vlc =
     [(''SoftwareName'', JStr ''VLC media player''), (''Version'', JStr ''3.0.20''),
      (''Publisher'', JStr ''VideoLAN''),
      (''InstallMethod'', JStr ''Chocolatey''),
      (''WingetId'', JNull), (''ChocolateyId'', JStr ''vlc'')]"

definition example_tool_a :: pydict where
  "example_tool_a =
     [(''SoftwareName'', JStr ''Tool A''), (''InstallMethod'', JStr ''Winget''),
      (''WingetId'', JStr ''vendor.toola'')]"

definition example_tool_b :: pydict where
  "example_tool_b = [(''SoftwareName'', JStr ''Tool B''), (''InstallMethod'', JStr ''Manual'')]"

definition example_package :: "pydict list \<Rightarrow> package" where
  "example_package sw =
     \<lparr>export_date = '''',
      drives = [(''primary'', ''C:''), (''secondary'', ''D:''), (''data'', ''D:'')],
      software = sw, store_apps = [], configs = [], licenses = []\<rparr>"

text \<open>A resolver report with one section, its URL as a link target and as a bare URL.\<close>

definition example_report :: string where
  "example_report = ''### Tool'' @ [nl] @ ''- [label](https://x/y.exe) or https://x/y.exe'' @ [nl]"


text \<open>A report whose first link is a search fallback.\<close>

definition example_search_report :: string where
  "example_search_report =
     ''### Foo'' @ [nl] @ ''- [search](https://www.Google.com/search?q=foo)'' @ [nl]
     @ ''- [installer](https://foo.example/setup.exe)'' @ [nl]"


text \<open>
  A restore run on a loaded package: the Winget script exists, prints a line and exits
  with the given code; there is no Chocolatey script.
\<close>

definition example_restore_gui :: restore_gui where
  "example_restore_gui =
     \<lparr>package_path = Some ''D:/migration'',
      restore_options =
        [(''RestoreLicenseKeys'', True), (''RestoreEnvironmentVariables'', True),
         (''RestoreNetwork'', True), (''RestoreFileAssociations'', True),
         (''RestoreWindowsSettings'', True), (''RestoreScheduledTasks'', False),
         (''RestoreServices'', False)],
      log_text = [], debug_files = [], progress_label = [], started = []\<rparr>"

definition example_env :: "int \<Rightarrow> restore_env" where
  "example_env code =
     \<lparr>confirmed = True,
      winget_script = Some (Exits [''Installing Git.Git...'' @ [nl]] code),
      chocolatey_script = None,
      temp_script_error = None,
      config_restore = Exits [''Restoring...'' @ [nl]] 0\<rparr>"


definition example_store_app :: pydict where
  "example_store_app =
     [(''Name'', JStr ''Microsoft.WindowsCalculator''), (''Version'', JStr ''11.2311''),
      (''Publisher'', JStr ''Microsoft''),
      (''PackageFamilyName'', JStr ''Microsoft.WindowsCalculator_8wekyb3d8bbwe'')]"

text \<open>A scan with three mapped programs and one store app, loaded into a new GUI.\<close>

definition example_scan :: scan_results where
  "example_scan =
     \<lparr>sd_software = Some \<lparr>InstalledSoftware = None, StoreApps = Some [example_store_app]\<rparr>,
      sd_mappings = Some [example_git, example_vlc, example_tool_b],
      sd_licenses = Some [(''Windows'', JObj [(''RecommendedKey'', JStr ''AAAAA-BBBBB-CCCCC-DDDDD-EEEEE'')])],
      sd_config = None\<rparr>"

definition example_gui :: scanner_gui where
  "example_gui = load_scan_from_path (\<lambda>v. []) ''D:/Scan_1'' example_scan init_gui"


text \<open>The example GUI after \<^verbatim>\<open>vlc\<close> was typed into the software search box.\<close>

definition example_filtered :: scanner_gui where
  "example_filtered = run_op example_gui (SearchSoftware ''vlc'')"


text \<open>The package that an export of the example GUI builds.\<close>

definition example_exported :: package where
  "example_exported =
     \<lparr>export_date = [],
      drives = [(''primary'', ''C:''), (''secondary'', ''D:''), (''data'', ''D:'')],
      software = [example_git, example_vlc, example_tool_b],
      store_apps = [],
      configs = config_options init_gui,
      licenses = [(''include_windows'', JBool True), (''include_office'', JBool True),
                  (''include_wifi'', JBool True),
                  (''windows_key'', JObj [(''RecommendedKey'', JStr ''AAAAA-BBBBB-CCCCC-DDDDD-EEEEE'')]),
                  (''office_keys'', JList []), (''wifi_profiles'', JList [])]\<rparr>"





section \<open>Properties of script generation\<close>

lemma map_filter_append: "List.map_filter f (xs @ ys) = List.map_filter f xs @ List.map_filter f ys"
  by (simp add: List.map_filter_def)

lemma get_truthy_Some: "get_truthy d k \<Longrightarrow> \<exists>v. map_of d k = Some v \<and> truthy v"
  by (auto simp: get_truthy_def split: option.splits)




lemma quoted_snoc: \<open>quoted fmt p = (''    "'' @ py_format fmt p) @ [CHR 0x22]\<close>
  by (simp add: quoted_def)




lemma render_script_nonempty: "render_script fmt h f pkgs \<noteq> []"
  by (simp add: render_script_def)





lemma map_filter_eq_Nil: "(List.map_filter f xs = []) = (\<forall>x \<in> set xs. f x = None)"
  by (induction xs) (auto simp: List.map_filter_def)

lemma winget_pkgs_empty: "(winget_pkgs sw = []) = (\<forall>s \<in> set sw. \<not> get_truthy s ''WingetId'')"
  unfolding winget_pkgs_def map_filter_eq_Nil
  by (fastforce simp: winget_id_def dest: get_truthy_Some)

lemma choco_pkgs_empty:
  "(choco_pkgs sw = []) = (\<forall>s \<in> set sw. \<not> (get_truthy s ''ChocolateyId'' \<and> \<not> get_truthy s ''WingetId''))"
  unfolding choco_pkgs_def map_filter_eq_Nil
  by (fastforce simp: choco_id_def dest: get_truthy_Some)

text \<open>
  Claim C8. A backend's install script is written if and only if some entry of the
  package's software list resolves to that backend: a truthy Winget identifier for
  \<^verbatim>\<open>install_winget.ps1\<close>, a truthy Chocolatey identifier and no truthy Winget identifier
  for \<^verbatim>\<open>install_chocolatey.ps1\<close>. No other file is written, none twice, and a written
  script is never empty.
\<close>

theorem script_written_iff_backend_used:
  "(''install_winget.ps1'' \<in> fst ` set (generate_install_scripts fmt pkg))
      = (\<exists>s \<in> set (software pkg). get_truthy s ''WingetId'')
   \<and> (''install_chocolatey.ps1'' \<in> fst ` set (generate_install_scripts fmt pkg))
      = (\<exists>s \<in> set (software pkg). get_truthy s ''ChocolateyId'' \<and> \<not> get_truthy s ''WingetId'')
   \<and> fst ` set (generate_install_scripts fmt pkg) \<subseteq> {''install_winget.ps1'', ''install_chocolatey.ps1''}
   \<and> distinct (map fst (generate_install_scripts fmt pkg))
   \<and> (\<forall>f \<in> set (generate_install_scripts fmt pkg). snd f \<noteq> [])"
proof -
  have w: "(''install_winget.ps1'' \<in> fst ` set (generate_install_scripts fmt pkg))
      = (winget_pkgs (software pkg) \<noteq> [])"
    by (auto simp: generate_install_scripts_def Let_def)
  have c: "(''install_chocolatey.ps1'' \<in> fst ` set (generate_install_scripts fmt pkg))
      = (choco_pkgs (software pkg) \<noteq> [])"
    by (auto simp: generate_install_scripts_def Let_def)
  have n: "fst ` set (generate_install_scripts fmt pkg) \<subseteq> {''install_winget.ps1'', ''install_chocolatey.ps1''}"
    by (auto simp: generate_install_scripts_def Let_def)
  have d: "distinct (map fst (generate_install_scripts fmt pkg))"
    by (simp add: generate_install_scripts_def Let_def)
  have e: "\<forall>f \<in> set (generate_install_scripts fmt pkg). snd f \<noteq> []"
    by (auto simp: generate_install_scripts_def Let_def render_script_nonempty)
  from w c n d e show ?thesis
    unfolding winget_pkgs_empty choco_pkgs_empty by blast
qed

theorem script_written_iff_backend_used_witness:
  "''install_winget.ps1'' \<in> fst ` set (generate_install_scripts (\<lambda>v. []) (example_package [example_tool_a, example_tool_b]))
   \<and> ''install_chocolatey.ps1'' \<notin> fst ` set (generate_install_scripts (\<lambda>v. []) (example_package [example_tool_a, example_tool_b]))
   \<and> generate_install_scripts (\<lambda>v. []) (example_package [example_tool_b]) = []"
proof -
  have sw: "software (example_package [example_tool_a, example_tool_b]) = [example_tool_a, example_tool_b]"
    "software (example_package [example_tool_b]) = [example_tool_b]"
    by (simp_all add: example_package_def)
  have t: "get_truthy example_tool_a ''WingetId''" "\<not> get_truthy example_tool_a ''ChocolateyId''"
    "\<not> get_truthy example_tool_b ''WingetId''" "\<not> get_truthy example_tool_b ''ChocolateyId''"
    by (simp_all add: get_truthy_def example_tool_a_def example_tool_b_def)
  have none: "generate_install_scripts (\<lambda>v. []) (example_package [example_tool_b]) = []"
    using script_written_iff_backend_used [of "\<lambda>v. []" "example_package [example_tool_b]"] sw t
    by (cases "generate_install_scripts (\<lambda>v. []) (example_package [example_tool_b])") auto
  show ?thesis
    using script_written_iff_backend_used [of "\<lambda>v. []" "example_package [example_tool_a, example_tool_b]"]
      sw t none by simp
qed


section \<open>Properties of the Python helpers\<close>

subsection \<open>Item identifiers\<close>

lemma digit_char_props:
  assumes "d < 10"
  shows "is_digit (digit_char d)" and "digit_val (digit_char d) = d"
    and "\<not> is_space (digit_char d)" and "digit_char d \<noteq> CHR ''_''"
    and "digit_char d \<noteq> CHR ''-''" and "digit_char d \<noteq> CHR ''+''"
proof -
  have o: "(of_char (digit_char d) :: nat) = 48 + d"
    using assms by (simp add: digit_char_def)
  show "is_digit (digit_char d)" using assms by (simp add: is_digit_def o)
  show "digit_val (digit_char d) = d" by (simp add: digit_val_def o)
  show "\<not> is_space (digit_char d)" using assms by (simp add: is_space_def o)
  have "(of_char (digit_char d) :: nat) \<noteq> of_char (CHR ''_'')" using assms by (simp add: o)
  then show "digit_char d \<noteq> CHR ''_''" by metis
  have "(of_char (digit_char d) :: nat) \<noteq> of_char (CHR ''-'')" using assms by (simp add: o)
  then show "digit_char d \<noteq> CHR ''-''" by metis
  have "(of_char (digit_char d) :: nat) \<noteq> of_char (CHR ''+'')" using assms by (simp add: o)
  then show "digit_char d \<noteq> CHR ''+''" by metis
qed


lemma digits_value_snoc: "digits_value (ds @ [c]) = 10 * digits_value ds + digit_val c"
  by (simp add: digits_value_def)

lemma digits_value_str_nat: "digits_value (str_nat n) = n"
proof (induction n rule: str_nat.induct)
  case (1 n)
  show ?case
  proof (cases "n < 10")
    case True
    then show ?thesis
      by (subst str_nat.simps) (simp add: digits_value_def digit_char_props)
  next
    case False
    have "digits_value (str_nat n) = 10 * digits_value (str_nat (n div 10)) + digit_val (digit_char (n mod 10))"
      using False by (subst str_nat.simps) (simp add: digits_value_snoc)
    also have "\<dots> = 10 * (n div 10) + n mod 10"
      using False 1 by (simp add: digit_char_props)
    finally show ?thesis by simp
  qed
qed

lemma str_nat_inj: "str_nat i = str_nat j \<Longrightarrow> i = j"
  by (metis digits_value_str_nat)







subsection \<open>Dicts\<close>


lemma map_of_dict_set: "map_of (dict_set d k v) k' = (if k' = k then Some v else map_of d k')"
  by (induction d) auto

lemma map_fst_dict_set:
  "map fst (dict_set d k v) = (if k \<in> set (map fst d) then map fst d else map fst d @ [k])"
  by (induction d) force+

lemma keys_dict_set: "fst ` set (dict_set d k v) = insert k (fst ` set d)"
proof -
  have "fst ` set (dict_set d k v) = set (map fst (dict_set d k v))" by simp
  also have "\<dots> = insert k (set (map fst d))"
    unfolding map_fst_dict_set by auto
  finally show ?thesis by simp
qed

lemma dict_set_distinct: "distinct (map fst d) \<Longrightarrow> distinct (map fst (dict_set d k v))"
  by (simp add: map_fst_dict_set)

subsection \<open>The export loops\<close>

lemma export_loop_none_selected:
  "\<forall>p \<in> set sel. \<not> snd p \<Longrightarrow> export_loop sel src f acc = Inr acc"
  by (induction sel src f acc rule: export_loop.induct) auto


section \<open>Properties of loading a scan\<close>




subsection \<open>Selection dicts with the identifiers of a load\<close>

lemma iid_inj: "(pre @ str_nat i = pre @ str_nat j) = (i = j)"
  by (auto dest: str_nat_inj)


lemma loaded_keys_map: "loaded_keys pre (map (\<lambda>i. (pre @ str_nat i, b i)) [0..<m])"
  by (simp add: loaded_keys_def comp_def)





subsection \<open>The export loops on such dicts\<close>




























section \<open>Properties of selecting and filtering\<close>

subsection \<open>Frame lemmas\<close>

lemma set_selection_fields [simp]:
  "selections (set_selection g c k v) = (selections g)(c := dict_set (selections g c) k v)"
  "tree_of (set_selection g c k v) c' = tree_of g c'"
  "scan_data (set_selection g c k v) = scan_data g"
  "software_tree (set_selection g c k v) = software_tree g"
  "store_apps_tree (set_selection g c k v) = store_apps_tree g"
  "config_options (set_selection g c k v) = config_options g"
  "include_windows_key (set_selection g c k v) = include_windows_key g"
  "include_office_keys (set_selection g c k v) = include_office_keys g"
  "include_wifi (set_selection g c k v) = include_wifi g"
  by (simp_all add: set_selection_def tree_of_def split: category.splits)

lemma set_tree_fields [simp]:
  "selections (set_tree g c t) = selections g"
  "scan_data (set_tree g c t) = scan_data g"
  "config_options (set_tree g c t) = config_options g"
  "include_windows_key (set_tree g c t) = include_windows_key g"
  "include_office_keys (set_tree g c t) = include_office_keys g"
  "include_wifi (set_tree g c t) = include_wifi g"
  by (simp_all add: set_tree_def split: category.splits)

lemma tree_of_set_tree:
  "tree_of g c \<noteq> None \<Longrightarrow> tree_of (set_tree g c t) c = Some t"
  by (auto simp: set_tree_def tree_of_def split: category.splits)

lemma tree_of_set_tree_other:
  "c' \<noteq> c \<Longrightarrow> tree_of (set_tree g c t) c' = tree_of g c'"
  by (auto simp: set_tree_def tree_of_def split: category.splits)

lemma tree_items_set_text [simp]: "tree_items (tree_set_text t item v) = tree_items t"
  by (simp add: tree_items_def tree_set_text_def case_prod_beta comp_def)

lemma tree_items_set_tree:
  "tree_of g c = Some t \<Longrightarrow> tree_items t' = tree_items t \<Longrightarrow>
   map_option tree_items (tree_of (set_tree g c t') c') = map_option tree_items (tree_of g c')"
  by (cases "c' = c") (simp_all add: tree_of_set_tree tree_of_set_tree_other)

lemma hidden_tree_items:
  "hidden g c k =
     (case map_option tree_items (tree_of g c) of
        None \<Rightarrow> False
      | Some (items, shown) \<Rightarrow> k \<in> set items \<and> k \<notin> set shown)"
  by (auto simp: hidden_def tree_items_def map_of_eq_None_iff split: option.splits)

subsection \<open>Select all and deselect all\<close>

lemma mark_all_frame:
  "map_option tree_items (tree_of (mark_all c v items g) c') = map_option tree_items (tree_of g c')
   \<and> scan_data (mark_all c v items g) = scan_data g
   \<and> config_options (mark_all c v items g) = config_options g
   \<and> include_windows_key (mark_all c v items g) = include_windows_key g
   \<and> include_office_keys (mark_all c v items g) = include_office_keys g
   \<and> include_wifi (mark_all c v items g) = include_wifi g"
proof (induction items arbitrary: g)
  case Nil
  show ?case by simp
next
  case (Cons item items)
  let ?g1 = "if map_of (selections g c) item = None then set_selection g c item (\<not> v) else g"
  let ?g2 = "set_selection ?g1 c item v"
  let ?g3 = "case tree_of ?g2 c of None \<Rightarrow> ?g2 | Some t \<Rightarrow> set_tree ?g2 c (tree_set_text t item v)"
  have t2: "tree_of ?g2 c' = tree_of g c'" for c' by simp
  have t3: "map_option tree_items (tree_of ?g3 c') = map_option tree_items (tree_of g c')"
    by (cases "tree_of ?g2 c") (simp_all add: tree_items_set_tree [where t' = "tree_set_text _ item v"])
  have f3: "scan_data ?g3 = scan_data g" "config_options ?g3 = config_options g"
    "include_windows_key ?g3 = include_windows_key g"
    "include_office_keys ?g3 = include_office_keys g" "include_wifi ?g3 = include_wifi g"
    by (simp_all split: option.splits)
  have "mark_all c v (item # items) g = mark_all c v items ?g3" by (simp add: Let_def)
  then show ?case using Cons.IH [of ?g3] t3 f3 by simp
qed

lemma mark_all_selections:
  "selections (mark_all c v items g) c' =
     (if c' = c then foldl (\<lambda>d item. dict_set d item v) (selections g c) items
      else selections g c')"
proof (induction items arbitrary: g)
  case Nil
  show ?case by simp
next
  case (Cons item items)
  let ?g1 = "if map_of (selections g c) item = None then set_selection g c item (\<not> v) else g"
  let ?g2 = "set_selection ?g1 c item v"
  let ?g3 = "case tree_of ?g2 c of None \<Rightarrow> ?g2 | Some t \<Rightarrow> set_tree ?g2 c (tree_set_text t item v)"
  have d: "dict_set (dict_set d item (\<not> v)) item v = dict_set d item v" for d :: "(string \<times> bool) list"
    by (induction d) auto
  have s3: "selections ?g3 = (selections g)(c := dict_set (selections g c) item v)"
    by (auto simp: d split: option.splits)
  have "mark_all c v (item # items) g = mark_all c v items ?g3" by (simp add: Let_def)
  then show ?case using Cons.IH [of ?g3] s3 by simp
qed

lemma map_of_dict_set_fold:
  "map_of (foldl (\<lambda>d item. dict_set d item v) d items) k
     = (if k \<in> set items then Some v else map_of d k)"
  by (induction items arbitrary: d) (auto simp: map_of_dict_set)

lemma distinct_dict_set_fold:
  "distinct (map fst d) \<Longrightarrow> distinct (map fst (foldl (\<lambda>d item. dict_set d item v) d items))"
  by (induction items arbitrary: d) (auto simp: dict_set_distinct)

lemma children_mark_all:
  "tree_of g c = Some t \<Longrightarrow> \<exists>t'. tree_of (mark_all c v items g) c = Some t' \<and> children t' = children t"
  using mark_all_frame [of c v items g c]
  by (cases "tree_of (mark_all c v items g) c") (auto simp: tree_items_def)

lemma select_then_deselect:
  assumes "tree_of g c = Some t" and "children t \<noteq> []"
  shows "map_of (selections (deselect_all (select_all g c) c) c) k
           = (if k \<in> set (children t) then Some False else map_of (selections g c) k)"
    and "distinct (map fst (selections g c)) \<Longrightarrow>
         distinct (map fst (selections (deselect_all (select_all g c) c) c))"
proof -
  have sa: "select_all g c = mark_all c True (children t) g"
    using assms by (simp add: select_all_def)
  from children_mark_all [OF assms(1), of True "children t"] obtain t' where
    t': "tree_of (select_all g c) c = Some t'" "children t' = children t"
    unfolding sa by blast
  have da: "deselect_all (select_all g c) c = mark_all c False (children t) (mark_all c True (children t) g)"
    using t' assms(2) by (simp add: deselect_all_def sa)
  show "map_of (selections (deselect_all (select_all g c) c) c) k
           = (if k \<in> set (children t) then Some False else map_of (selections g c) k)"
    unfolding da by (simp add: mark_all_selections map_of_dict_set_fold)
  show "distinct (map fst (selections g c)) \<Longrightarrow>
         distinct (map fst (selections (deselect_all (select_all g c) c) c))"
    unfolding da by (simp add: mark_all_selections distinct_dict_set_fold)
qed

lemma select_deselect_frame:
  "scan_data (deselect_all (select_all g c) c) = scan_data g"
  by (simp add: select_all_def deselect_all_def mark_all_frame split: option.splits)

lemma nothing_selected_after:
  assumes "tree_of g c = Some t" and "distinct (map fst (selections g c))"
    and "\<forall>p \<in> set (selections g c). snd p \<longrightarrow> fst p \<in> set (children t)"
  shows "\<forall>p \<in> set (selections (deselect_all (select_all g c) c) c). \<not> snd p"
proof (cases "children t = []")
  case True
  then have "deselect_all (select_all g c) c = g"
    using assms(1) by (simp add: select_all_def deselect_all_def)
  then show ?thesis using assms(3) True by auto
next
  case False
  note sd = select_then_deselect [OF assms(1) False]
  show ?thesis
  proof
    fix p assume p: "p \<in> set (selections (deselect_all (select_all g c) c) c)"
    obtain k v where kv: "p = (k, v)" by (cases p)
    have "map_of (selections (deselect_all (select_all g c) c) c) k = Some v"
      using p kv sd(2) [OF assms(2)] by simp
    then have m: "(if k \<in> set (children t) then Some False else map_of (selections g c) k) = Some v"
      by (simp add: sd(1))
    show "\<not> snd p"
    proof (cases "k \<in> set (children t)")
      case True
      with m kv show ?thesis by simp
    next
      case False
      with m have "map_of (selections g c) k = Some v" by simp
      then have "(k, v) \<in> set (selections g c)" by (rule map_of_SomeD)
      with assms(3) False kv show ?thesis by auto
    qed
  qed
qed

text \<open>
  Claim C5, as amended. In a category with a tree whose selection dict has every key
  once and no selected item that the tree does not display, select-all followed by
  deselect-all leaves no item of the category selected, and the package of an export
  made right afterwards has no entry of the category.
\<close>

theorem select_all_deselect_all_exports_nothing_displayed:
  assumes "tree_of g c = Some t" and "distinct (map fst (selections g c))"
    and "\<forall>p \<in> set (selections g c). snd p \<longrightarrow> fst p \<in> set (children t)"
    and "scan_data g = Some sd"
  shows "(\<forall>p \<in> set (selections (deselect_all (select_all g c) c) c). \<not> snd p)
     \<and> (c = CatSoftware \<longrightarrow> export_software (deselect_all (select_all g c) c) sd = Inr [])
     \<and> (c = CatStoreApps \<longrightarrow> export_store_apps (deselect_all (select_all g c) c) sd = Inr [])
     \<and> (\<forall>pkg. build_package (deselect_all (select_all g c) c) = Inr pkg \<longrightarrow>
           (c = CatSoftware \<longrightarrow> software pkg = []) \<and> (c = CatStoreApps \<longrightarrow> store_apps pkg = []))"
proof -
  let ?g = "deselect_all (select_all g c) c"
  note n = nothing_selected_after [OF assms(1-3)]
  have sw: "c = CatSoftware \<longrightarrow> export_software ?g sd = Inr []"
    using n by (auto simp: export_software_def export_loop_none_selected split: option.splits)
  have st: "c = CatStoreApps \<longrightarrow> export_store_apps ?g sd = Inr []"
    using n by (auto simp: export_store_apps_def export_loop_none_selected split: option.splits)
  have d: "scan_data ?g = Some sd" using assms(4) by (simp add: select_deselect_frame)
  have "\<forall>pkg. build_package ?g = Inr pkg \<longrightarrow>
           (c = CatSoftware \<longrightarrow> software pkg = []) \<and> (c = CatStoreApps \<longrightarrow> store_apps pkg = [])"
    using sw st by (auto simp: build_package_def d split: sum.splits)
  with n sw st show ?thesis by blast
qed

subsection \<open>One operation\<close>

lemma identify_row_displayed:
  "identify_row t y \<noteq> [] \<Longrightarrow> identify_row t y \<in> set (children t)"
  by (auto simp: identify_row_def split: if_splits)

lemma toggle_selection_effect:
  "map_option tree_items (tree_of (toggle_selection g y c') c) = map_option tree_items (tree_of g c)"
  "map_of (selections g c) k \<noteq> None \<Longrightarrow> map_of (selections (toggle_selection g y c') c) k \<noteq> None"
  "hidden g c k \<Longrightarrow> map_of (selections (toggle_selection g y c') c) k = map_of (selections g c) k"
proof -
  show "map_option tree_items (tree_of (toggle_selection g y c') c) = map_option tree_items (tree_of g c)"
    by (auto simp: toggle_selection_def Let_def tree_items_set_tree [where t' = "tree_set_text _ _ _"]
        split: option.splits)
  show "map_of (selections g c) k \<noteq> None \<Longrightarrow> map_of (selections (toggle_selection g y c') c) k \<noteq> None"
    by (auto simp: toggle_selection_def Let_def map_of_dict_set split: option.splits)
  show "hidden g c k \<Longrightarrow> map_of (selections (toggle_selection g y c') c) k = map_of (selections g c) k"
  proof (cases "c' = c")
    case False
    then show ?thesis
      by (auto simp: toggle_selection_def Let_def split: option.splits)
  next
    case True
    assume h: "hidden g c k"
    then obtain t where t: "tree_of g c = Some t" "k \<notin> set (children t)"
      by (auto simp: hidden_def split: option.splits)
    have "identify_row t y \<noteq> [] \<Longrightarrow> identify_row t y \<noteq> k"
      using identify_row_displayed [of t y] t(2) by auto
    then show ?thesis
      using True t(1) by (auto simp: toggle_selection_def Let_def map_of_dict_set split: option.splits)
  qed
qed

lemma mark_all_effect:
  "map_of (selections g c) k \<noteq> None \<Longrightarrow> map_of (selections (mark_all c' v items g) c) k \<noteq> None"
  "k \<notin> set items \<or> c' \<noteq> c \<Longrightarrow>
     map_of (selections (mark_all c' v items g) c) k = map_of (selections g c) k"
  by (auto simp: mark_all_selections map_of_dict_set_fold)

lemma select_all_effect:
  "map_option tree_items (tree_of (select_all g c') c) = map_option tree_items (tree_of g c)"
  "map_of (selections g c) k \<noteq> None \<Longrightarrow> map_of (selections (select_all g c') c) k \<noteq> None"
  "hidden g c k \<Longrightarrow> map_of (selections (select_all g c') c) k = map_of (selections g c) k"
proof -
  show "map_option tree_items (tree_of (select_all g c') c) = map_option tree_items (tree_of g c)"
    by (simp add: select_all_def mark_all_frame split: option.splits)
  show "map_of (selections g c) k \<noteq> None \<Longrightarrow> map_of (selections (select_all g c') c) k \<noteq> None"
    by (simp add: select_all_def mark_all_effect(1) del: not_None_eq split: option.splits)
  show "hidden g c k \<Longrightarrow> map_of (selections (select_all g c') c) k = map_of (selections g c) k"
    by (cases "c' = c") (auto simp: select_all_def hidden_def mark_all_effect(2) split: option.splits)
qed

lemma deselect_all_effect:
  "map_option tree_items (tree_of (deselect_all g c') c) = map_option tree_items (tree_of g c)"
  "map_of (selections g c) k \<noteq> None \<Longrightarrow> map_of (selections (deselect_all g c') c) k \<noteq> None"
  "hidden g c k \<Longrightarrow> map_of (selections (deselect_all g c') c) k = map_of (selections g c) k"
proof -
  show "map_option tree_items (tree_of (deselect_all g c') c) = map_option tree_items (tree_of g c)"
    by (simp add: deselect_all_def mark_all_frame split: option.splits)
  show "map_of (selections g c) k \<noteq> None \<Longrightarrow> map_of (selections (deselect_all g c') c) k \<noteq> None"
    by (simp add: deselect_all_def mark_all_effect(1) del: not_None_eq split: option.splits)
  show "hidden g c k \<Longrightarrow> map_of (selections (deselect_all g c') c) k = map_of (selections g c) k"
    by (cases "c' = c") (auto simp: deselect_all_def hidden_def mark_all_effect(2) split: option.splits)
qed

lemma select_winget_loop_effect:
  "children (software_tree (select_winget_loop items g)) = children (software_tree g)
   \<and> map fst (rows (software_tree (select_winget_loop items g))) = map fst (rows (software_tree g))
   \<and> store_apps_tree (select_winget_loop items g) = store_apps_tree g
   \<and> (map_of (selections g c) k \<noteq> None \<longrightarrow> map_of (selections (select_winget_loop items g) c) k \<noteq> None)
   \<and> (k \<notin> set items \<or> c \<noteq> CatSoftware \<longrightarrow>
        map_of (selections (select_winget_loop items g) c) k = map_of (selections g c) k)"
proof (induction items arbitrary: g)
  case Nil
  show ?case by simp
next
  case (Cons item items)
  show ?case
  proof (cases "tree_values (software_tree g) item")
    case (Inl e)
    then show ?thesis by simp
  next
    case (Inr vals)
    let ?sel = "(if 3 < length vals then vals ! 3 else []) = ''Winget''"
    let ?g1 = "(set_selection g CatSoftware item ?sel)
                 \<lparr>software_tree := tree_set_text (software_tree g) item ?sel\<rparr>"
    have step: "select_winget_loop (item # items) g = select_winget_loop items ?g1"
      using Inr by (simp add: Let_def)
    have t: "tree_items (tree_set_text (software_tree g) item ?sel) = tree_items (software_tree g)"
      by simp
    have f: "children (software_tree ?g1) = children (software_tree g)"
      "map fst (rows (software_tree ?g1)) = map fst (rows (software_tree g))"
      "store_apps_tree ?g1 = store_apps_tree g"
      using t by (simp_all add: tree_items_def)
    have s: "selections ?g1 = (selections g)(CatSoftware := dict_set (selections g CatSoftware) item ?sel)"
      by simp
    have k1: "map_of (selections g c) k \<noteq> None \<longrightarrow> map_of (selections ?g1 c) k \<noteq> None"
      unfolding s by (auto simp: map_of_dict_set)
    have k2: "k \<notin> set (item # items) \<or> c \<noteq> CatSoftware \<longrightarrow>
        map_of (selections ?g1 c) k = map_of (selections g c) k"
      unfolding s by (auto simp: map_of_dict_set)
    show ?thesis
      unfolding step using Cons.IH [of ?g1] f k1 k2 by auto
  qed
qed

lemma select_winget_effect:
  "map_option tree_items (tree_of (select_winget g) c) = map_option tree_items (tree_of g c)"
  "map_of (selections g c) k \<noteq> None \<Longrightarrow> map_of (selections (select_winget g) c) k \<noteq> None"
  "hidden g c k \<Longrightarrow> map_of (selections (select_winget g) c) k = map_of (selections g c) k"
proof -
  note e = select_winget_loop_effect [of "children (software_tree g)" g c k]
  show "map_option tree_items (tree_of (select_winget g) c) = map_option tree_items (tree_of g c)"
    using e by (simp add: select_winget_def tree_of_def tree_items_def split: category.splits)
  show "map_of (selections g c) k \<noteq> None \<Longrightarrow> map_of (selections (select_winget g) c) k \<noteq> None"
    using e by (simp add: select_winget_def)
  show "hidden g c k \<Longrightarrow> map_of (selections (select_winget g) c) k = map_of (selections g c) k"
    using e by (cases c) (auto simp: select_winget_def hidden_def tree_of_def)
qed

lemma filter_keeps_selections:
  "selections (filter_software g) = selections g"
  "selections (filter_store_apps g) = selections g"
  by (simp_all add: filter_software_def filter_store_apps_def)

lemma run_op_keeps_keys:
  "map_of (selections g c) k \<noteq> None \<Longrightarrow> map_of (selections (run_op g op) c) k \<noteq> None"
  by (cases op)
    (simp_all add: toggle_selection_effect(2) select_all_effect(2) deselect_all_effect(2)
      select_winget_effect(2) filter_keeps_selections)

lemma run_op_keeps_hidden:
  "hidden g c k \<Longrightarrow> map_of (selections (run_op g op) c) k = map_of (selections g c) k"
  by (cases op)
    (simp_all add: toggle_selection_effect(3) select_all_effect(3) deselect_all_effect(3)
      select_winget_effect(3) filter_keeps_selections)

subsection \<open>Every sequence of operations\<close>

lemma run_ops_snoc: "run_ops g (ops @ [op]) = run_op (run_ops g ops) op"
  by (simp add: run_ops_def)

lemma run_ops_keeps_keys:
  "map_of (selections g c) k \<noteq> None \<Longrightarrow> map_of (selections (run_ops g ops) c) k \<noteq> None"
  by (induction ops rule: rev_induct) (simp_all add: run_ops_def run_op_keeps_keys)

lemma run_ops_keeps_hidden:
  "\<forall>n < length ops. hidden (run_ops g (take n ops)) c k \<Longrightarrow>
   map_of (selections (run_ops g ops) c) k = map_of (selections g c) k"
proof (induction ops rule: rev_induct)
  case Nil
  show ?case by (simp add: run_ops_def)
next
  case (snoc op ops)
  have "\<forall>n < length ops. hidden (run_ops g (take n ops)) c k"
  proof (intro allI impI)
    fix n assume n: "n < length ops"
    then have "hidden (run_ops g (take n (ops @ [op]))) c k"
      using snoc.prems [rule_format, of n] by simp
    then show "hidden (run_ops g (take n ops)) c k" using n by simp
  qed
  then have ih: "map_of (selections (run_ops g ops) c) k = map_of (selections g c) k"
    by (rule snoc.IH)
  have "hidden (run_ops g (take (length ops) (ops @ [op]))) c k"
    using snoc.prems [rule_format, of "length ops"] by simp
  then have "hidden (run_ops g ops) c k" by simp
  then show ?case
    unfolding run_ops_snoc using ih by (simp add: run_op_keeps_hidden)
qed

text \<open>
  Claim C4. Through every sequence of clicks, select-all, deselect-all, select-Winget
  and search operations, an identifier that a selection dict holds stays in it with a
  boolean value; an identifier that is hidden before each operation of the sequence has
  the same value after it; and a search changes no selection at all, so showing a
  hidden identifier again does not reset it.
\<close>

theorem selections_kept_and_hidden_preserved:
  "(map_of (selections g c) k \<noteq> None \<longrightarrow> map_of (selections (run_ops g ops) c) k \<noteq> None)
   \<and> ((\<forall>n < length ops. hidden (run_ops g (take n ops)) c k) \<longrightarrow>
        map_of (selections (run_ops g ops) c) k = map_of (selections g c) k)
   \<and> selections (run_op g (SearchSoftware s)) = selections g
   \<and> selections (run_op g (SearchStoreApps s)) = selections g"
  using run_ops_keeps_keys [of g c k ops] run_ops_keeps_hidden [of ops g c k]
  by (simp add: filter_keeps_selections)

lemma example_filtered_hidden:
  "hidden (run_ops example_filtered []) CatSoftware ''sw_0''"
  "hidden (run_ops example_filtered [SelectAll CatSoftware]) CatSoftware ''sw_0''"
  "hidden (run_ops example_filtered [SelectAll CatSoftware, DeselectAll CatSoftware]) CatSoftware ''sw_0''"
  by code_simp+

lemma example_filtered_values:
  "map_of (selections example_filtered CatSoftware) ''sw_0'' = Some True"
  "map_of (selections (run_ops example_filtered
       [SelectAll CatSoftware, DeselectAll CatSoftware, Toggle CatSoftware 0]) CatSoftware) ''sw_1''
     = Some True"
  by code_simp+

theorem selections_kept_and_hidden_preserved_witness:
  "hidden example_filtered CatSoftware ''sw_0''
   \<and> map_of (selections example_filtered CatSoftware) ''sw_0'' = Some True
   \<and> map_of (selections (run_ops example_filtered
         [SelectAll CatSoftware, DeselectAll CatSoftware, Toggle CatSoftware 0]) CatSoftware) ''sw_0''
       = Some True
   \<and> map_of (selections (run_ops example_filtered
         [SelectAll CatSoftware, DeselectAll CatSoftware, Toggle CatSoftware 0]) CatSoftware) ''sw_1''
       = Some True"
proof -
  let ?ops = "[SelectAll CatSoftware, DeselectAll CatSoftware, Toggle CatSoftware 0]"
  have h: "\<forall>n < length ?ops. hidden (run_ops example_filtered (take n ?ops)) CatSoftware ''sw_0''"
    using example_filtered_hidden by (auto simp: less_Suc_eq)
  have h0: "hidden example_filtered CatSoftware ''sw_0''"
    using example_filtered_hidden(1) by (simp add: run_ops_def)
  from selections_kept_and_hidden_preserved [of example_filtered CatSoftware "''sw_0''" ?ops "[]"] h
  have "map_of (selections (run_ops example_filtered ?ops) CatSoftware) ''sw_0''
      = map_of (selections example_filtered CatSoftware) ''sw_0''"
    by blast
  then show ?thesis using h0 example_filtered_values by simp
qed

lemma example_gui_facts:
  "tree_of example_gui CatSoftware = Some (software_tree example_gui)"
  "distinct (map fst (selections example_gui CatSoftware))"
  "set (map fst (filter snd (selections example_gui CatSoftware)))
     \<subseteq> set (children (software_tree example_gui))"
  "scan_data example_gui = Some example_scan"
  by code_simp+

theorem select_all_deselect_all_exports_nothing_displayed_witness:
  "tree_of example_gui CatSoftware = Some (software_tree example_gui)
   \<and> distinct (map fst (selections example_gui CatSoftware))
   \<and> set (map fst (filter snd (selections example_gui CatSoftware)))
        \<subseteq> set (children (software_tree example_gui))
   \<and> scan_data example_gui = Some example_scan
   \<and> export_software (deselect_all (select_all example_gui CatSoftware) CatSoftware) example_scan = Inr []"
proof -
  have d: "\<forall>p \<in> set (selections example_gui CatSoftware).
      snd p \<longrightarrow> fst p \<in> set (children (software_tree example_gui))"
    using example_gui_facts(3) by auto
  from select_all_deselect_all_exports_nothing_displayed
    [OF example_gui_facts(1,2) d example_gui_facts(4)]
  show ?thesis using example_gui_facts by simp
qed

text \<open>
  Claim C5 as it is written fails while a search hides selected items: with only
  \<^verbatim>\<open>sw_1\<close> displayed, select-all and deselect-all leave \<^verbatim>\<open>sw_0\<close> and \<^verbatim>\<open>sw_2\<close> selected,
  and the export has their two entries.
\<close>

theorem hidden_selection_survives_select_deselect:
  "children (software_tree example_filtered) = [''sw_1'']
   \<and> selections example_filtered CatSoftware = [(''sw_0'', True), (''sw_1'', True), (''sw_2'', True)]
   \<and> selections (deselect_all (select_all example_filtered CatSoftware) CatSoftware) CatSoftware
        = [(''sw_0'', True), (''sw_1'', False), (''sw_2'', True)]
   \<and> exported_software (deselect_all (select_all example_filtered CatSoftware) CatSoftware)
        = Inr [example_git, example_tool_b]"
  by code_simp

section \<open>Properties of the export\<close>

lemma build_package_same_inputs:
  "same_export_inputs g1 g2 \<Longrightarrow> build_package g1 = build_package g2"
proof -
  assume a: "same_export_inputs g1 g2"
  have "export_software g1 sd = export_software g2 sd"
    and "export_store_apps g1 sd = export_store_apps g2 sd"
    and "export_licenses g1 sd = export_licenses g2 sd" for sd
    using a by (simp_all add: same_export_inputs_def export_software_def
        export_store_apps_def export_licenses_def split: option.splits)
  moreover have "scan_data g1 = scan_data g2" "config_options g1 = config_options g2"
    using a by (simp_all add: same_export_inputs_def)
  ultimately show ?thesis by (simp add: build_package_def split: option.splits sum.splits)
qed

lemma export_selection_same_inputs:
  assumes "same_export_inputs g1 g2" and "d1 \<noteq> []" and "d2 \<noteq> []"
  shows "fst (export_selection fmt dump d1 w g1) = fst (export_selection fmt dump d2 w g2)"
  using assms(2,3) build_package_same_inputs [OF assms(1)]
  by (simp add: export_selection_def split: sum.splits)

lemma export_selection_keeps_inputs:
  "same_export_inputs g (snd (export_selection fmt dump d w g))"
  by (simp add: export_selection_def same_export_inputs_def split: sum.splits)

lemma same_export_inputs_trans:
  "same_export_inputs g1 g2 \<Longrightarrow> same_export_inputs g2 g3 \<Longrightarrow> same_export_inputs g1 g3"
  by (simp add: same_export_inputs_def)

text \<open>
  Claim C3. Two exports from states of the GUI with the same loaded scan, selections,
  configuration toggles and license toggles write the same \<^verbatim>\<open>migration_package.json\<close>,
  byte for byte, whatever the output directories and whatever else differs in the GUI
  (the search boxes, the trees, the status line); all the files written are the same.
  An export changes none of its inputs, so an export made right after another one
  writes the same package file again. The text is \<open>dump\<close> of a package that holds no
  time or other value from outside these inputs.
\<close>

theorem export_twice_same_bytes:
  assumes "same_export_inputs g1 g2" and "d1 \<noteq> []" and "d2 \<noteq> []"
  shows "package_file (fst (export_selection fmt dump d1 w g1))
           = package_file (fst (export_selection fmt dump d2 w g2))
     \<and> fst (export_selection fmt dump d1 w g1) = fst (export_selection fmt dump d2 w g2)
     \<and> package_file (fst (export_selection fmt dump d2 w (snd (export_selection fmt dump d1 w g1))))
           = package_file (fst (export_selection fmt dump d1 w g1))
     \<and> (w \<longrightarrow> (\<forall>pkg. build_package g1 = Inr pkg \<longrightarrow>
            package_file (fst (export_selection fmt dump d1 w g1)) = Some (dump (package_json pkg))))"
proof -
  have a: "fst (export_selection fmt dump d1 w g1) = fst (export_selection fmt dump d2 w g2)"
    using assms by (rule export_selection_same_inputs)
  have "same_export_inputs (snd (export_selection fmt dump d1 w g1)) g1"
    using export_selection_keeps_inputs [of g1 fmt dump d1 w] by (simp add: same_export_inputs_def)
  then have b: "fst (export_selection fmt dump d2 w (snd (export_selection fmt dump d1 w g1)))
      = fst (export_selection fmt dump d1 w g1)"
    using assms(3,2) by (rule export_selection_same_inputs)
  have c: "w \<longrightarrow> (\<forall>pkg. build_package g1 = Inr pkg \<longrightarrow>
            package_file (fst (export_selection fmt dump d1 w g1)) = Some (dump (package_json pkg)))"
    using assms(2) by (simp add: export_selection_def package_file_def)
  from a b c show ?thesis by simp
qed


lemma example_build: "build_package example_gui = Inr example_exported"
  by code_simp

lemma example_same_inputs: "same_export_inputs example_gui example_filtered"
  by code_simp

theorem export_twice_same_bytes_witness:
  "same_export_inputs example_gui example_filtered
   \<and> (\<forall>dump. package_file (fst (export_selection (\<lambda>v. []) dump ''D:/out'' True example_gui))
          = Some (dump (package_json example_exported)))
   \<and> (\<forall>dump. package_file (fst (export_selection (\<lambda>v. []) dump ''E:/again'' True example_filtered))
          = Some (dump (package_json example_exported)))"
proof -
  have d: "''D:/out'' \<noteq> []" "''E:/again'' \<noteq> []" by simp_all
  note r = export_twice_same_bytes [OF example_same_inputs d, of "\<lambda>v. []" _ True]
  have a: "package_file (fst (export_selection (\<lambda>v. []) dump ''D:/out'' True example_gui))
          = Some (dump (package_json example_exported))" for dump
    using r [of dump] example_build by blast
  have b: "package_file (fst (export_selection (\<lambda>v. []) dump ''E:/again'' True example_filtered))
          = Some (dump (package_json example_exported))" for dump
    using r [of dump] a [of dump] by metis
  from a b example_same_inputs show ?thesis by blast
qed

text \<open>
  Claim C9 fails on the code: the package literal of \<^verbatim>\<open>_export_selection\<close> has
  the key \<^verbatim>\<open>export_date\<close> with the empty string and nothing assigns the key afterwards,
  so every package that an export builds has the empty string as its export date.
\<close>

theorem export_date_never_set:
  "build_package g = Inr pkg \<Longrightarrow> export_date pkg = []"
  by (auto simp: build_package_def split: option.splits sum.splits)

theorem export_date_never_set_witness:
  "build_package example_gui = Inr example_exported \<and> export_date example_exported = []"
  using export_date_never_set [OF example_build] example_build by simp

section \<open>Properties of the resolver report parser\<close>

lemma rearranges_distinct:
  assumes "rearranges order"
  shows "distinct (list_of_set order xs)" and "set (list_of_set order xs) = set xs"
proof -
  have m: "mset (order (remdups xs)) = mset (remdups xs)"
    using assms by (simp add: rearranges_def)
  have "distinct (remdups xs)" by simp
  with m show "distinct (list_of_set order xs)"
    unfolding list_of_set_def by (metis mset_eq_imp_distinct_iff)
  from m have "set (order (remdups xs)) = set (remdups xs)" by (rule mset_eq_setD)
  then show "set (list_of_set order xs) = set xs" by (simp add: list_of_set_def)
qed

lemma found_urls_distinct: "rearranges order \<Longrightarrow> distinct (found_urls order content)"
  by (simp add: found_urls_def rearranges_distinct(1))

lemma found_urls_set:
  "rearranges order \<Longrightarrow>
   set (found_urls order content)
     = {v \<in> set (link_urls content) \<union> set (raw_urls content). py_strip v \<notin> set placeholders}"
  by (auto simp: found_urls_def rearranges_distinct(2))

lemma py_strip_placeholders: "p \<in> set placeholders \<Longrightarrow> py_strip p = p"
  by (auto simp: placeholders_def py_strip_def is_space_def)

lemma distinct_count_list: "distinct xs \<Longrightarrow> x \<in> set xs \<Longrightarrow> count_list xs x = 1"
  by (induction xs) auto

text \<open>
  Claim C6. A URL that the report holds both as the target of a markdown link and as a
  bare URL is in the candidate list exactly once: the list has no element twice, its
  elements are the URLs of the two passes together but the placeholders, and no
  placeholder is in it. This holds for every order in which the set is iterated.
\<close>

theorem url_listed_once:
  assumes "rearranges order"
    and "u \<in> set (link_urls content)" and "u \<in> set (raw_urls content)"
    and "py_strip u \<notin> set placeholders"
  shows "count_list (found_urls order content) u = 1
     \<and> distinct (found_urls order content)
     \<and> set (found_urls order content)
         = {v \<in> set (link_urls content) \<union> set (raw_urls content). py_strip v \<notin> set placeholders}
     \<and> set placeholders \<inter> set (found_urls order content) = {}"
proof -
  have d: "distinct (found_urls order content)" using assms(1) by (rule found_urls_distinct)
  have s: "set (found_urls order content)
         = {v \<in> set (link_urls content) \<union> set (raw_urls content). py_strip v \<notin> set placeholders}"
    using assms(1) by (rule found_urls_set)
  have "u \<in> set (found_urls order content)" using s assms(2,4) by simp
  with d have c: "count_list (found_urls order content) u = 1" by (rule distinct_count_list)
  have "set placeholders \<inter> set (found_urls order content) = {}"
    using s py_strip_placeholders by auto
  with c d s show ?thesis by simp
qed

lemma rearranges_rev: "rearranges rev"
  by (simp add: rearranges_def)

lemma example_report_links: "link_urls example_report = [''https://x/y.exe'']"
  by (simp add: link_urls_def example_report_def nl_def match_link_def match_scheme_def
      link_char_def is_space_def)

lemma example_report_raw: "raw_urls example_report = [''https://x/y.exe'', ''https://x/y.exe'']"
  by (simp add: raw_urls_def example_report_def nl_def match_raw_def match_scheme_def
      raw_char_def is_space_def)

theorem url_listed_once_witness:
  "rearranges rev
   \<and> link_urls example_report = [''https://x/y.exe'']
   \<and> raw_urls example_report = [''https://x/y.exe'', ''https://x/y.exe'']
   \<and> found_urls rev example_report = [''https://x/y.exe'']
   \<and> count_list (found_urls rev example_report) ''https://x/y.exe'' = 1"
proof -
  have p: "py_strip ''https://x/y.exe'' \<notin> set placeholders"
    by (simp add: placeholders_def py_strip_def is_space_def)
  have f: "found_urls rev example_report = [''https://x/y.exe'']"
    by (simp add: found_urls_def list_of_set_def example_report_links example_report_raw
        placeholders_def py_strip_def is_space_def)
  from url_listed_once [OF rearranges_rev, of "''https://x/y.exe''" example_report] p f
  show ?thesis by (simp add: rearranges_rev example_report_links example_report_raw)
qed


lemma selected_urls_subset: "set (selected_urls tree_rows) \<subseteq> snd ` set tree_rows"
  by (auto simp: selected_urls_def)

lemma urls_toggle_download: "map snd (toggle_download_selection tree_rows y) = map snd tree_rows"
  by (simp add: toggle_download_selection_def map_update list_update_same_conv)

lemma urls_select_all_downloads: "map snd (select_all_downloads tree_rows) = map snd tree_rows"
  by (simp add: select_all_downloads_def case_prod_beta)

lemma urls_deselect_all_downloads: "map snd (deselect_all_downloads tree_rows) = map snd tree_rows"
  by (simp add: deselect_all_downloads_def case_prod_beta)

lemma selected_urls_select_all: "selected_urls (select_all_downloads tree_rows) = map snd tree_rows"
  by (induction tree_rows) (auto simp: selected_urls_def select_all_downloads_def)

lemma view_report:
  "update_installer_results order results (Report content) =
     \<lparr>installer_search_info =
         FoundUrlsAcrossItems (length (found_urls order content)) (count_sections True content),
       download_selection_tree = map (\<lambda>url. (False, url)) (selectable_urls (found_urls order content)),
       download_info_label =
         (if found_urls order content \<noteq> [] then
            (if selectable_urls (found_urls order content) \<noteq> []
             then FoundDirectUrls (length (selectable_urls (found_urls order content)))
             else OnlySearchFallbacks)
          else NoDownloadUrls)\<rparr>"
  by (simp add: update_installer_results_def Let_def)

lemma length_selectable:
  "u \<in> set found \<Longrightarrow> is_search_url u \<Longrightarrow> length (selectable_urls found) < length found"
  unfolding selectable_urls_def
  by (induction found) (auto simp: less_Suc_eq_le)

text \<open>
  Claim C7. A URL of the report that holds the search pattern (in any letter case) is
  counted in the number of URLs that the search message reports, which is the length of
  the whole extraction, and is no row of the download tree: the tree has fewer rows
  than the count, and selecting every row does not select the URL for download.
\<close>

theorem search_url_counted_not_offered:
  assumes "u \<in> set (found_urls order content)" and "is_search_url u"
  shows "installer_search_info (update_installer_results order results (Report content))
         = FoundUrlsAcrossItems (length (found_urls order content)) (count_sections True content)
     \<and> length (download_selection_tree (update_installer_results order results (Report content)))
         < length (found_urls order content)
     \<and> u \<notin> snd ` set (download_selection_tree (update_installer_results order results (Report content)))
     \<and> u \<notin> set (selected_urls (select_all_downloads
              (download_selection_tree (update_installer_results order results (Report content)))))
     \<and> download_info_label (update_installer_results order results (Report content)) \<noteq> NoDownloadUrls"
proof -
  let ?v = "update_installer_results order results (Report content)"
  have t: "download_selection_tree ?v = map (\<lambda>url. (False, url)) (selectable_urls (found_urls order content))"
    by (simp add: view_report)
  have u: "u \<notin> set (selectable_urls (found_urls order content))"
    using assms(2) by (simp add: selectable_urls_def)
  have urls: "map snd (download_selection_tree ?v) = selectable_urls (found_urls order content)"
    unfolding t by (simp add: comp_def)
  have a: "u \<notin> snd ` set (download_selection_tree ?v)"
    using u urls by (metis set_map)
  have b: "u \<notin> set (selected_urls (select_all_downloads (download_selection_tree ?v)))"
    using u urls by (simp add: selected_urls_select_all)
  have c: "length (download_selection_tree ?v) < length (found_urls order content)"
    using length_selectable [OF assms] by (simp add: t)
  have d: "download_info_label ?v \<noteq> NoDownloadUrls"
    using assms(1) by (auto simp: view_report)
  have e: "installer_search_info ?v
      = FoundUrlsAcrossItems (length (found_urls order content)) (count_sections True content)"
    by (simp add: view_report)
  from a b c d e show ?thesis by simp
qed

lemma example_search_links:
  "link_urls example_search_report
     = [''https://www.Google.com/search?q=foo'', ''https://foo.example/setup.exe'']"
  by (simp add: link_urls_def example_search_report_def nl_def match_link_def match_scheme_def
      link_char_def is_space_def)

lemma example_search_raw:
  "raw_urls example_search_report
     = [''https://www.Google.com/search?q=foo'', ''https://foo.example/setup.exe'']"
  by (simp add: raw_urls_def example_search_report_def nl_def match_raw_def match_scheme_def
      raw_char_def is_space_def)

lemma example_search_found:
  "found_urls (\<lambda>xs. xs) example_search_report
     = [''https://www.Google.com/search?q=foo'', ''https://foo.example/setup.exe'']"
  by (simp add: found_urls_def list_of_set_def example_search_links example_search_raw
      placeholders_def py_strip_def is_space_def)

lemma example_is_search: "is_search_url ''https://www.Google.com/search?q=foo''"
  by code_simp

lemma example_not_search: "\<not> is_search_url ''https://foo.example/setup.exe''"
  by code_simp

theorem search_url_counted_not_offered_witness:
  "is_search_url ''https://www.Google.com/search?q=foo''
   \<and> ''https://www.Google.com/search?q=foo'' \<in> set (found_urls (\<lambda>xs. xs) example_search_report)
   \<and> installer_search_info (update_installer_results (\<lambda>xs. xs) [] (Report example_search_report))
       = FoundUrlsAcrossItems 2 1
   \<and> download_selection_tree (update_installer_results (\<lambda>xs. xs) [] (Report example_search_report))
       = [(False, ''https://foo.example/setup.exe'')]
   \<and> ''https://www.Google.com/search?q=foo''
       \<notin> snd ` set (download_selection_tree (update_installer_results (\<lambda>xs. xs) [] (Report example_search_report)))"
proof -
  have m: "''https://www.Google.com/search?q=foo'' \<in> set (found_urls (\<lambda>xs. xs) example_search_report)"
    by (simp add: example_search_found)
  have c: "count_sections True example_search_report = 1"
    by (simp add: example_search_report_def nl_def)
  have t: "download_selection_tree (update_installer_results (\<lambda>xs. xs) [] (Report example_search_report))
       = [(False, ''https://foo.example/setup.exe'')]"
    by (simp add: view_report example_search_found selectable_urls_def example_is_search example_not_search)
  from search_url_counted_not_offered [OF m example_is_search, of "[]"] m c t example_is_search
  show ?thesis by (auto simp: example_search_found)
qed


section \<open>Properties of the full restore\<close>

lemma backend_phase_exit_zero:
  "backend_phase announce script (exit_zero run) g = backend_phase announce script run g"
  by (simp add: backend_phase_def exit_zero_def split: option.splits process.splits)

lemma restore_configs_env:
  "restore_configs (env\<lparr>winget_script := w, chocolatey_script := c\<rparr>) g = restore_configs env g"
  by (simp add: restore_configs_def Let_def split: option.splits process.splits)

lemma full_restore_exit_zero:
  "full_restore (env\<lparr>winget_script := exit_zero (winget_script env),
                     chocolatey_script := exit_zero (chocolatey_script env)\<rparr>) g
   = full_restore env g"
  by (simp add: full_restore_def backend_phase_exit_zero restore_configs_env Let_def case_prod_beta)

lemma log_fields [simp]:
  "package_path (log g m f) = package_path g"
  "started (log g m f) = started g"
  "progress_label (log g m f) = progress_label g"
  "log_text (log g m f) = log_text g @ [m]"
  by (simp_all add: log_def)

lemma log_output_fields [simp]:
  "package_path (log_output g lines) = package_path g"
  "started (log_output g lines) = started g"
  "progress_label (log_output g lines) = progress_label g"
  "log_text (log_output g lines) = log_text g @ map py_strip lines"
  unfolding log_output_def by (induction lines arbitrary: g) simp_all

lemma backend_phase_starts:
  assumes "starts run"
  shows "snd (backend_phase announce script run g)"
    and "package_path (fst (backend_phase announce script run g)) = package_path g"
    and "started (fst (backend_phase announce script run g)) = started g @ started_by script run"
  using assms
  by (simp_all add: backend_phase_def starts_def started_by_def Let_def
      split: option.splits process.splits)

lemma restore_configs_runs:
  assumes "package_path g \<noteq> None" and "temp_script_error env = None"
    and "config_restore env = Exits lines code"
  shows "started (restore_configs env g) = started g @ [''temp_restore.ps1'']"
    and "progress_label (restore_configs env g) = ''Configuration restore complete''"
    and "log_text (restore_configs env g)
        = log_text g @ [''Starting configuration restore...''] @ map py_strip lines
            @ [''Configuration restore complete!'']"
  using assms by (auto simp: restore_configs_def Let_def)

lemma full_restore_reaches_config:
  assumes "package_path g \<noteq> None" and "confirmed env"
    and "starts (winget_script env)" and "starts (chocolatey_script env)"
  shows "\<exists>g'. full_restore env g = restore_configs env g'
      \<and> package_path g' = package_path g
      \<and> started g' = started g @ started_by ''install_winget.ps1'' (winget_script env)
                       @ started_by ''install_chocolatey.ps1'' (chocolatey_script env)
      \<and> last (log_text g') = rule50 @ [nl]
      \<and> ''PHASE 2: Restoring Configuration'' \<in> set (log_text g')"
proof -
  let ?g3 = "log (log (log g rule50 ''restore_debug.txt'') ''PHASE 1: Installing Software''
                ''restore_debug.txt'') rule50 ''restore_debug.txt''"
  let ?p4 = "backend_phase ([nl] @ ''Installing via Winget...'') ''install_winget.ps1'' (winget_script env) ?g3"
  let ?p5 = "backend_phase ([nl] @ ''Installing via Chocolatey...'') ''install_chocolatey.ps1''
               (chocolatey_script env) (fst ?p4)"
  let ?g8 = "log (log (log (fst ?p5) ([nl] @ rule50) ''restore_debug.txt'')
              ''PHASE 2: Restoring Configuration'' ''restore_debug.txt'') (rule50 @ [nl]) ''restore_debug.txt''"
  have a4: "snd ?p4" using assms(3) by (rule backend_phase_starts(1))
  have a5: "snd ?p5" using assms(4) by (rule backend_phase_starts(1))
  have eq: "full_restore env g = restore_configs env ?g8"
    using assms(1,2) a4 [simplified] a5 [simplified]
    by (auto simp: full_restore_def Let_def case_prod_beta)
  have pp: "package_path ?g8 = package_path g"
    by (simp add: backend_phase_starts(2) [OF assms(3)] backend_phase_starts(2) [OF assms(4)])
  have st: "started ?g8 = started g @ started_by ''install_winget.ps1'' (winget_script env)
                       @ started_by ''install_chocolatey.ps1'' (chocolatey_script env)"
    by (simp add: backend_phase_starts(3) [OF assms(3)] backend_phase_starts(3) [OF assms(4)])
  have "last (log_text ?g8) = rule50 @ [nl]" by simp
  moreover have "''PHASE 2: Restoring Configuration'' \<in> set (log_text ?g8)" by simp
  ultimately show ?thesis using eq pp st by blast
qed

text \<open>
  Claim C2, as amended. In a full restore on a loaded package that the user confirmed,
  where every install script that exists can be started, the exit codes of the backend
  processes are never read: the run is the one in which both exit with zero. It goes
  through the backend phases, starting each script that exists and none that is
  missing, and reaches the configuration restore; when that process runs, the run ends
  with the log line \<^verbatim>\<open>Configuration restore complete!\<close> and the same progress label.
\<close>

theorem backend_exit_code_never_read:
  assumes "package_path g \<noteq> None" and "confirmed env"
    and "starts (winget_script env)" and "starts (chocolatey_script env)"
    and "temp_script_error env = None" and "config_restore env = Exits lines code"
  shows "full_restore env g
           = full_restore (env\<lparr>winget_script := exit_zero (winget_script env),
                               chocolatey_script := exit_zero (chocolatey_script env)\<rparr>) g
     \<and> started (full_restore env g)
           = started g @ started_by ''install_winget.ps1'' (winget_script env)
               @ started_by ''install_chocolatey.ps1'' (chocolatey_script env)
               @ [''temp_restore.ps1'']
     \<and> ''PHASE 2: Restoring Configuration'' \<in> set (log_text (full_restore env g))
     \<and> last (log_text (full_restore env g)) = ''Configuration restore complete!''
     \<and> progress_label (full_restore env g) = ''Configuration restore complete''"
proof -
  from full_restore_reaches_config [OF assms(1-4)] obtain g' where
    eq: "full_restore env g = restore_configs env g'"
    and pp: "package_path g' = package_path g"
    and st: "started g' = started g @ started_by ''install_winget.ps1'' (winget_script env)
                       @ started_by ''install_chocolatey.ps1'' (chocolatey_script env)"
    and ph: "''PHASE 2: Restoring Configuration'' \<in> set (log_text g')" by blast
  have p: "package_path g' \<noteq> None" using pp assms(1) by simp
  note rc = restore_configs_runs [OF p assms(5,6)]
  show ?thesis
    using eq st ph rc by (simp add: full_restore_exit_zero)
qed


lemma example_run_log:
  "log_text (full_restore (example_env code) example_restore_gui) =
     [rule50, ''PHASE 1: Installing Software'', rule50,
      [nl] @ ''Installing via Winget...'', ''Installing Git.Git...'',
      [nl] @ rule50, ''PHASE 2: Restoring Configuration'', rule50 @ [nl],
      ''Starting configuration restore...'', ''Restoring...'',
      ''Configuration restore complete!'']"
proof -
  have s: "py_strip (''Installing Git.Git...'' @ [nl]) = ''Installing Git.Git...''"
    "py_strip (''Restoring...'' @ [nl]) = ''Restoring...''"
    by (simp_all add: py_strip_def is_space_def nl_def)
  have p: "package_path example_restore_gui = Some ''D:/migration''"
    "log_text example_restore_gui = []"
    by (simp_all add: example_restore_gui_def)
  have e: "confirmed (example_env code)"
    "winget_script (example_env code) = Some (Exits [''Installing Git.Git...'' @ [nl]] code)"
    "chocolatey_script (example_env code) = None"
    "temp_script_error (example_env code) = None"
    "config_restore (example_env code) = Exits [''Restoring...'' @ [nl]] 0"
    by (simp_all add: example_env_def)
  show ?thesis
    unfolding full_restore_def backend_phase_def restore_configs_def Let_def
    by (simp add: p s [simplified] e)
qed

theorem backend_exit_code_never_read_witness:
  "package_path example_restore_gui \<noteq> None \<and> confirmed (example_env 1)
   \<and> starts (winget_script (example_env 1)) \<and> starts (chocolatey_script (example_env 1))
   \<and> full_restore (example_env 1) example_restore_gui = full_restore (example_env 0) example_restore_gui
   \<and> started (full_restore (example_env 1) example_restore_gui) = [''install_winget.ps1'', ''temp_restore.ps1'']
   \<and> progress_label (full_restore (example_env 1) example_restore_gui) = ''Configuration restore complete''"
proof -
  have a: "package_path example_restore_gui \<noteq> None" by (simp add: example_restore_gui_def)
  have b: "confirmed (example_env 1)" by (simp add: example_env_def)
  have c: "starts (winget_script (example_env 1))" "starts (chocolatey_script (example_env 1))"
    by (simp_all add: example_env_def starts_def)
  have d: "temp_script_error (example_env 1) = None"
    "config_restore (example_env 1) = Exits [''Restoring...'' @ [nl]] 0"
    by (simp_all add: example_env_def)
  have z: "(example_env 1)\<lparr>winget_script := exit_zero (winget_script (example_env 1)),
              chocolatey_script := exit_zero (chocolatey_script (example_env 1))\<rparr> = example_env 0"
    by (simp add: example_env_def exit_zero_def)
  have s: "started example_restore_gui = []" by (simp add: example_restore_gui_def)
  have sb: "started_by ''install_winget.ps1'' (winget_script (example_env 1)) = [''install_winget.ps1'']"
    "started_by ''install_chocolatey.ps1'' (chocolatey_script (example_env 1)) = []"
    by (simp_all add: example_env_def started_by_def)
  note r = backend_exit_code_never_read [OF a b c d, unfolded z s sb, simplified append_Nil append_Cons]
  from r a b c show ?thesis by blast
qed

text \<open>
  Claim C2 as it is written fails: the Winget script exits with code 1, and the log of
  the run is line for line the log of the run in which it exits with 0. No line records
  the failure.
\<close>

theorem failed_backend_not_logged:
  "winget_script (example_env 1) = Some (Exits [''Installing Git.Git...'' @ [nl]] 1)
   \<and> chocolatey_script (example_env 1) = None
   \<and> log_text (full_restore (example_env 1) example_restore_gui) =
       [rule50, ''PHASE 1: Installing Software'', rule50,
        [nl] @ ''Installing via Winget...'', ''Installing Git.Git...'',
        [nl] @ rule50, ''PHASE 2: Restoring Configuration'', rule50 @ [nl],
        ''Starting configuration restore...'', ''Restoring...'',
        ''Configuration restore complete!'']
   \<and> log_text (full_restore (example_env 1) example_restore_gui)
       = log_text (full_restore (example_env 0) example_restore_gui)"
  by (simp add: example_run_log) (simp add: example_env_def)


end
